theory Spec2Isabelle
  imports Main "HOL-Library.Word"
begin

unbundle bit_operations_syntax

section \<open>Machine words, bytes and the little-endian memory image\<close>

text \<open>
  The library exchanges packed C structs (\<^verbatim>\<open>#pragma pack(push, 1)\<close> in
  \<^verbatim>\<open>pv_driver_interface.h\<close>) as raw bytes.  Fixed-width integers are words; a struct
  in memory is the little-endian concatenation of its fields.
\<close>

type_synonym byte = "8 word"
type_synonym u16 = "16 word"
type_synonym u32 = "32 word"

definition le16 :: "u16 \<Rightarrow> byte list" where
  "le16 w = [ucast w, ucast (drop_bit 8 w)]"

definition le32 :: "u32 \<Rightarrow> byte list" where
  "le32 w = [ucast w, ucast (drop_bit 8 w), ucast (drop_bit 16 w), ucast (drop_bit 24 w)]"

text \<open>Reading a little-endian integer back from the bytes that hold it.\<close>

definition u16_of_le :: "byte list \<Rightarrow> u16" where
  "u16_of_le bs = foldr (\<lambda>b acc. ucast b OR push_bit 8 acc) bs 0"

definition u32_of_le :: "byte list \<Rightarrow> u32" where
  "u32_of_le bs = foldr (\<lambda>b acc. ucast b OR push_bit 8 acc) bs 0"

text \<open>
  A \<^verbatim>\<open>uint32_t\<close> field read through a struct pointer into a receive buffer, at a byte
  offset.  The C code does not check that the buffer is long enough; a read that runs
  past the end of the buffer is \<open>None\<close> here.
\<close>

definition read_u32 :: "byte list \<Rightarrow> nat \<Rightarrow> u32 option" where
  "read_u32 buf off =
     (if off + 4 \<le> length buf then Some (u32_of_le (take 4 (drop off buf))) else None)"

section \<open>Error codes\<close>

definition ENOENT :: int where "ENOENT = 2"
definition ENOMEM :: int where "ENOMEM = 12"

section \<open>Packet framing (\<^verbatim>\<open>pv_driver_interface.h\<close>)\<close>

definition PV_DRIVER_MAGIC1 :: u16 where "PV_DRIVER_MAGIC1 = 0xC0DE"
definition PV_DRIVER_MAGIC2 :: u16 where "PV_DRIVER_MAGIC2 = 0x5AFE"
definition PV_DRIVER_INTERFACE_VERSION :: u32 where "PV_DRIVER_INTERFACE_VERSION = 0x00000001"
definition PV_DRIVER_MAX_PACKET_SIZE :: nat where "PV_DRIVER_MAX_PACKET_SIZE = 4096"

definition sizeof_dh_header :: nat where "sizeof_dh_header = 16"
definition sizeof_dh_footer :: nat where "sizeof_dh_footer = 8"

definition PV_DRIVER_MAX_PAYLOAD_SIZE :: nat where
  "PV_DRIVER_MAX_PAYLOAD_SIZE = PV_DRIVER_MAX_PACKET_SIZE - (sizeof_dh_header + sizeof_dh_footer)"

text \<open>
  \<^verbatim>\<open>struct dh_header\<close>.  The fields \<^verbatim>\<open>type\<close> and \<^verbatim>\<open>length\<close> carry the suffix
  \<open>_h\<close> here.
\<close>

record dh_header =
  magic1 :: u16
  magic2 :: u16
  type_h :: u32
  length_h :: u32
  dh_reserved_word :: u32

definition header_bytes :: "dh_header \<Rightarrow> byte list" where
  "header_bytes h =
     le16 (magic1 h) @ le16 (magic2 h) @ le32 (type_h h) @ le32 (length_h h)
       @ le32 (dh_reserved_word h)"

definition header_of_bytes :: "byte list \<Rightarrow> dh_header" where
  "header_of_bytes bs =
     \<lparr> magic1 = u16_of_le (take 2 bs),
       magic2 = u16_of_le (take 2 (drop 2 bs)),
       type_h = u32_of_le (take 4 (drop 4 bs)),
       length_h = u32_of_le (take 4 (drop 8 bs)),
       dh_reserved_word = u32_of_le (take 4 (drop 12 bs)) \<rparr>"

text \<open>
  \<^verbatim>\<open>struct dh_footer\<close>: the CRC, then a reserved halfword and a reserved word.  The
  sender's buffer comes zeroed from \<^verbatim>\<open>pv_helper_malloc\<close> and only \<^verbatim>\<open>crc\<close> is written.
\<close>

definition footer_bytes :: "u16 \<Rightarrow> byte list" where
  "footer_bytes crc = le16 crc @ replicate 6 0"

text \<open>\<^verbatim>\<open>footer->crc\<close> for a footer that starts \<open>len\<close> bytes into the receive buffer.\<close>

definition footer_crc :: "byte list \<Rightarrow> nat \<Rightarrow> u16" where
  "footer_crc buffer len = u16_of_le (take 2 (drop len buffer))"

section \<open>CRC-16/CCITT (\<^verbatim>\<open>common.h\<close>)\<close>

definition crc_tbl :: "u16 list" where
  "crc_tbl = [0x0000, 0x1081, 0x2102, 0x3183, 0x4204, 0x5285, 0x6306, 0x7387,
              0x8408, 0x9489, 0xa50a, 0xb58b, 0xc60c, 0xd68d, 0xe70e, 0xf78f]"

text \<open>
  One line of the loop body:
  \<^verbatim>\<open>crc = ((crc >> 4) & 0x0fff) ^ crc_tbl[((crc ^ c) & 15)];\<close>
\<close>

definition crc_nibble :: "u16 \<Rightarrow> byte \<Rightarrow> u16" where
  "crc_nibble crc c = (drop_bit 4 crc AND 0x0fff) XOR crc_tbl ! unat ((crc XOR ucast c) AND 15)"

text \<open>The loop body for one byte: the low nibble, \<^verbatim>\<open>c >>= 4\<close>, the high nibble.\<close>

definition crc_byte :: "u16 \<Rightarrow> byte \<Rightarrow> u16" where
  "crc_byte crc c = crc_nibble (crc_nibble crc c) (drop_bit 4 c)"

text \<open>
  \<^verbatim>\<open>__pv_helper_checksum\<close>: the outer loop runs over the data sections, the inner one
  over the bytes of a section; the result is \<^verbatim>\<open>~crc & 0xffff\<close>.  (The C function
  returns it as \<^verbatim>\<open>int16_t\<close> and both callers convert back to \<^verbatim>\<open>uint16_t\<close>, which
  keeps the sixteen bits.)
\<close>

definition pv_helper_checksum :: "byte list list \<Rightarrow> u16" where
  "pv_helper_checksum data_sections = NOT (foldl (foldl crc_byte) 0xffff data_sections)"

definition pv_helper_packet_checksum :: "dh_header \<Rightarrow> byte list \<Rightarrow> nat \<Rightarrow> u16" where
  "pv_helper_packet_checksum header payload payload_length =
     pv_helper_checksum [header_bytes header, take payload_length payload]"

definition pv_helper_blob_checksum :: "byte list \<Rightarrow> u16" where
  "pv_helper_blob_checksum data = pv_helper_checksum [data]"

section \<open>The transport and the allocator, at their boundary\<close>

text \<open>
  Modelled from the spec: the IVC transport (\<^verbatim>\<open>libivc\<close>) is an external library and
  is not part of this repository; the spec (section 4.2) gives its contract.  A client is
  a FIFO of readable bytes, a free-space figure for the outgoing ring, and the record of
  what was handed to \<^verbatim>\<open>libivc_send\<close>.  The return codes of the space query, the data
  query and the send are the transport's own and are carried as fields: the library code
  only tests them against zero or passes them on.
\<close>

record libivc_client =
  is_open :: bool
  rx :: "byte list"
  data_rc :: int
  space :: nat
  space_rc :: int
  send_rc :: int
  send_calls :: "byte list list"
  notifies :: nat

text \<open>A \<^verbatim>\<open>NULL\<close> client pointer is \<open>None\<close>; it is not open.\<close>

definition libivc_isOpen :: "libivc_client option \<Rightarrow> bool" where
  "libivc_isOpen ch = (case ch of None \<Rightarrow> False | Some c \<Rightarrow> is_open c)"

definition libivc_getAvailableSpace :: "libivc_client \<Rightarrow> int \<times> nat" where
  "libivc_getAvailableSpace c = (space_rc c, space c)"

definition libivc_send :: "libivc_client \<Rightarrow> byte list \<Rightarrow> int \<times> libivc_client" where
  "libivc_send c buf = (send_rc c, c\<lparr>send_calls := send_calls c @ [buf]\<rparr>)"

definition libivc_notify_remote :: "libivc_client \<Rightarrow> libivc_client" where
  "libivc_notify_remote c = c\<lparr>notifies := Suc (notifies c)\<rparr>"

text \<open>The data query: \<open>None\<close> stands for a non-zero return code.\<close>

definition libivc_getAvailableData :: "libivc_client option \<Rightarrow> nat option" where
  "libivc_getAvailableData ch =
     (case ch of None \<Rightarrow> None
      | Some c \<Rightarrow> if data_rc c = 0 then Some (length (rx c)) else None)"

text \<open>
  The exact-length read: it returns the first \<open>n\<close> bytes and consumes them when that
  many are readable, and otherwise fails (\<open>None\<close>, a non-zero return code) and leaves
  both the stream and the destination unchanged.
\<close>

definition libivc_recv :: "libivc_client option \<Rightarrow> nat \<Rightarrow> (byte list \<times> libivc_client option) option" where
  "libivc_recv ch n =
     (case ch of None \<Rightarrow> None
      | Some c \<Rightarrow>
          if n \<le> length (rx c) then Some (take n (rx c), Some (c\<lparr>rx := drop n (rx c)\<rparr>))
          else None)"

text \<open>
  The transport delivers what the peer sent: the bytes become readable, in order, after
  those already waiting.
\<close>

definition deliver :: "byte list \<Rightarrow> libivc_client \<Rightarrow> libivc_client" where
  "deliver bs c = c\<lparr>rx := rx c @ bs\<rparr>"

text \<open>A transmission error: bit \<open>i\<close> of byte \<open>j\<close> of a byte string is inverted.\<close>

definition flip_packet_bit :: "nat \<Rightarrow> nat \<Rightarrow> byte list \<Rightarrow> byte list" where
  "flip_packet_bit j i bs = bs[j := flip_bit i (bs ! j)]"

text \<open>
  User callbacks are function pointers; \<open>None\<close> is \<^verbatim>\<open>NULL\<close>.  A call through a
  registered pointer is recorded, with the arguments it was given, in the trace of the
  environment.  \<open>PacketReceipt\<close> records a call of the per-channel packet receipt
  function with the header it is pointed at and the receive buffer.  \<open>NullCall\<close>
  records a call through a \<^verbatim>\<open>NULL\<close> function pointer.
\<close>

type_synonym handler = nat

datatype event =
    PacketReceipt dh_header "byte list"
  | HostDisplayChange handler "byte list" u32
  | AddDisplayRequest handler "byte list"
  | RemoveDisplayRequest handler "byte list"
  | ProviderFatalError handler
  | DriverCapabilities handler "byte list"
  | AdvertisedList handler "byte list"
  | DisplayNoLongerAvailable handler "byte list"
  | TextMode handler "byte list"
  | ConsumerFatalError handler
  | SetDisplay handler "u32 option" "u32 option" "u32 option"
  | UpdateCursor handler "u32 option" "u32 option" "u32 option"
  | MoveCursor handler "u32 option" "u32 option"
  | BlankDisplay handler "u32 option"
  | DirtyRectangle handler u32 u32 u32 u32
  | DisplayFatalError handler
  | BackendFatalError handler
  | NullCall

text \<open>
  The environment of a call: the trace of callbacks made so far, and the number of bytes
  the allocator can still hand out.  \<^verbatim>\<open>pv_helper_malloc\<close> fails (\<open>None\<close>) when the
  request exceeds it; \<^verbatim>\<open>pv_helper_free\<close> gives the bytes back.
\<close>

record env =
  trace :: "event list"
  heap_avail :: nat

definition pv_helper_malloc :: "nat \<Rightarrow> env \<Rightarrow> env option" where
  "pv_helper_malloc n e =
     (if n \<le> heap_avail e then Some (e\<lparr>heap_avail := heap_avail e - n\<rparr>) else None)"

definition pv_helper_free :: "nat \<Rightarrow> env \<Rightarrow> env" where
  "pv_helper_free n e = e\<lparr>heap_avail := heap_avail e + n\<rparr>"

definition call :: "event \<Rightarrow> env \<Rightarrow> env" where
  "call ev e = e\<lparr>trace := trace e @ [ev]\<rparr>"

section \<open>Packet emission: \<^verbatim>\<open>__send_packet\<close> (\<^verbatim>\<open>common.h\<close>)\<close>

text \<open>
  The bytes of the transmit buffer: header, payload, footer.  \<open>data\<close> holds the
  \<^verbatim>\<open>length\<close> bytes at the \<^verbatim>\<open>data\<close> pointer; \<^verbatim>\<open>length\<close> is a \<^verbatim>\<open>uint32_t\<close>.
\<close>

definition transmit_buffer :: "u32 \<Rightarrow> byte list \<Rightarrow> byte list" where
  "transmit_buffer ty data =
     (let header = \<lparr> magic1 = PV_DRIVER_MAGIC1, magic2 = PV_DRIVER_MAGIC2, type_h = ty,
                      length_h = of_nat (length data), dh_reserved_word = 0 \<rparr>;
          body = header_bytes header @ data
      in body @ footer_bytes (pv_helper_blob_checksum body))"

text \<open>
  \<^verbatim>\<open>__send_packet(channel, type, data, length)\<close>.  The result is the return code, the
  channel and the environment.  The two early returns after the allocation do not free
  the transmit buffer, as in the source.
\<close>

definition send_packet ::
  "libivc_client option \<Rightarrow> u32 \<Rightarrow> byte list \<Rightarrow> env \<Rightarrow> int \<times> libivc_client option \<times> env" where
  "send_packet channel ty data e =
     (if \<not> libivc_isOpen channel then (- ENOENT, channel, e)
      else
        let c = the channel;
            packet_length = sizeof_dh_header + length data + sizeof_dh_footer
        in case pv_helper_malloc packet_length e of
             None \<Rightarrow> (- ENOMEM, channel, e)
           | Some e1 \<Rightarrow>
               let buf = transmit_buffer ty data;
                   (rc, available) = libivc_getAvailableSpace c
               in if rc \<noteq> 0 then (rc, channel, e1)
                  else if available < packet_length then (- ENOMEM, channel, e1)
                  else
                    let (rc', c1) = libivc_send c buf;
                        c2 = libivc_notify_remote (libivc_notify_remote c1)
                    in (rc', Some c2, pv_helper_free packet_length e1))"

section \<open>The provider's control session (\<^verbatim>\<open>pv_display_helper.c\<close>)\<close>

definition PACKET_TYPE_CONTROL_DRIVER_CAPABILITIES :: u32 where
  "PACKET_TYPE_CONTROL_DRIVER_CAPABILITIES = 1"
definition PACKET_TYPE_CONTROL_HOST_DISPLAY_LIST :: u32 where
  "PACKET_TYPE_CONTROL_HOST_DISPLAY_LIST = 2"
definition PACKET_TYPE_CONTROL_ADVERTISED_DISPLAY_LIST :: u32 where
  "PACKET_TYPE_CONTROL_ADVERTISED_DISPLAY_LIST = 3"
definition PACKET_TYPE_CONTROL_ADD_DISPLAY :: u32 where
  "PACKET_TYPE_CONTROL_ADD_DISPLAY = 4"
definition PACKET_TYPE_CONTROL_REMOVE_DISPLAY :: u32 where
  "PACKET_TYPE_CONTROL_REMOVE_DISPLAY = 5"
definition PACKET_TYPE_CONTROL_DISPLAY_NO_LONGER_AVAILABLE :: u32 where
  "PACKET_TYPE_CONTROL_DISPLAY_NO_LONGER_AVAILABLE = 6"
definition PACKET_TYPE_CONTROL_TEXT_MODE :: u32 where
  "PACKET_TYPE_CONTROL_TEXT_MODE = 7"

definition DH_CAP_RESIZE :: u32 where "DH_CAP_RESIZE = push_bit 2 1"
definition DH_CAP_HOTPLUG :: u32 where "DH_CAP_HOTPLUG = push_bit 4 1"

text \<open>\<^verbatim>\<open>struct pv_display_provider\<close>: the fields the control session uses.\<close>

record pv_display_provider =
  control_channel :: "libivc_client option"
  capabilities :: u32
  current_packet_header :: dh_header
  host_display_change_handler :: "handler option"
  add_display_handler :: "handler option"
  remove_display_handler :: "handler option"
  fatal_error_handler :: "handler option"

text \<open>
  \<^verbatim>\<open>__handle_host_display_changed_event\<close>: the handler receives
  \<^verbatim>\<open>list->displays\<close> (the payload after its first word) and \<^verbatim>\<open>list->num_displays\<close>.
\<close>

definition provider_handle_host_display_changed_event ::
  "pv_display_provider \<Rightarrow> byte list \<Rightarrow> env \<Rightarrow> env" where
  "provider_handle_host_display_changed_event provider payload e =
     (case host_display_change_handler provider of
        None \<Rightarrow> e
      | Some h \<Rightarrow> call (HostDisplayChange h (drop 4 payload) (u32_of_le (take 4 payload))) e)"

definition provider_handle_add_display_request ::
  "pv_display_provider \<Rightarrow> byte list \<Rightarrow> env \<Rightarrow> env" where
  "provider_handle_add_display_request provider request e =
     (case add_display_handler provider of
        None \<Rightarrow> e
      | Some h \<Rightarrow> call (AddDisplayRequest h request) e)"

definition provider_handle_remove_display_request ::
  "pv_display_provider \<Rightarrow> byte list \<Rightarrow> env \<Rightarrow> env" where
  "provider_handle_remove_display_request provider request e =
     (case remove_display_handler provider of
        None \<Rightarrow> e
      | Some h \<Rightarrow> call (RemoveDisplayRequest h request) e)"

definition trigger_fatal_error_on_provider :: "pv_display_provider \<Rightarrow> env \<Rightarrow> env" where
  "trigger_fatal_error_on_provider provider e =
     (case fatal_error_handler provider of
        None \<Rightarrow> e
      | Some h \<Rightarrow> call (ProviderFatalError h) e)"

text \<open>
  \<^verbatim>\<open>__handle_control_packet_receipt(provider, header, buffer)\<close>: the switch on
  \<^verbatim>\<open>header->type\<close>; an unknown type is logged and nothing else happens.
\<close>

definition provider_handle_control_packet_receipt ::
  "pv_display_provider \<Rightarrow> dh_header \<Rightarrow> byte list \<Rightarrow> env \<Rightarrow> env" where
  "provider_handle_control_packet_receipt provider header buffer e =
     (let e0 = call (PacketReceipt header buffer) e
      in if type_h header = PACKET_TYPE_CONTROL_HOST_DISPLAY_LIST
           then provider_handle_host_display_changed_event provider buffer e0
         else if type_h header = PACKET_TYPE_CONTROL_ADD_DISPLAY
           then provider_handle_add_display_request provider buffer e0
         else if type_h header = PACKET_TYPE_CONTROL_REMOVE_DISPLAY
           then provider_handle_remove_display_request provider buffer e0
         else e0)"

text \<open>\<^verbatim>\<open>__try_to_read_header\<close>: true iff a whole header was read.\<close>

definition provider_try_to_read_header ::
  "pv_display_provider \<Rightarrow> bool \<times> pv_display_provider" where
  "provider_try_to_read_header provider =
     (case libivc_recv (control_channel provider) sizeof_dh_header of
        None \<Rightarrow> (False, provider)
      | Some (bs, ch) \<Rightarrow>
          (True, provider\<lparr>control_channel := ch, current_packet_header := header_of_bytes bs\<rparr>))"

text \<open>
  \<^verbatim>\<open>__try_to_receive_control_packet\<close>: true iff a packet was read and dispatched.
  \<^verbatim>\<open>size_t\<close> is taken 64 bits wide, so \<^verbatim>\<open>length + sizeof(struct dh_footer)\<close> does
  not wrap.
\<close>

definition provider_try_to_receive_control_packet ::
  "pv_display_provider \<Rightarrow> env \<Rightarrow> bool \<times> pv_display_provider \<times> env" where
  "provider_try_to_receive_control_packet provider e =
     (let len = unat (length_h (current_packet_header provider));
          length_with_footer = len + sizeof_dh_footer
      in case libivc_getAvailableData (control_channel provider) of
           None \<Rightarrow> (False, provider, trigger_fatal_error_on_provider provider e)
         | Some data_available \<Rightarrow>
             if data_available < length_with_footer then (False, provider, e)
             else
               (case pv_helper_malloc length_with_footer e of
                 None \<Rightarrow> (False, provider, e)
               | Some e1 \<Rightarrow>
                   (case libivc_recv (control_channel provider) length_with_footer of
                      None \<Rightarrow> (False, provider, pv_helper_free length_with_footer e1)
                    | Some (buffer, ch) \<Rightarrow>
                        let p1 = provider\<lparr>control_channel := ch\<rparr>;
                            checksum = pv_helper_packet_checksum (current_packet_header p1) buffer len;
                            p2 = p1\<lparr>current_packet_header :=
                                      (current_packet_header p1)\<lparr>length_h := 0\<rparr>\<rparr>
                        in if checksum \<noteq> footer_crc buffer len
                           then (False, p2,
                                 trigger_fatal_error_on_provider p2
                                   (pv_helper_free length_with_footer e1))
                           else (True, p2,
                                 pv_helper_free length_with_footer
                                   (provider_handle_control_packet_receipt p2
                                      (current_packet_header p2) buffer e1)))))"

text \<open>
  \<^verbatim>\<open>__handle_control_channel_event\<close>: the \<^verbatim>\<open>do ... while(continue_to_read)\<close> loop.
\<close>

function provider_handle_control_channel_event ::
  "pv_display_provider \<Rightarrow> env \<Rightarrow> pv_display_provider \<times> env" where
  "provider_handle_control_channel_event provider e =
     (let (c1, p1) = (if length_h (current_packet_header provider) = 0
                      then provider_try_to_read_header provider else (False, provider));
          (c2, p2, e2) = (if length_h (current_packet_header p1) > 0
                          then provider_try_to_receive_control_packet p1 e else (c1, p1, e))
      in if c2 then provider_handle_control_channel_event p2 e2 else (p2, e2))"
  by pat_completeness auto
termination
proof (relation "measure (\<lambda>(p, e). case control_channel p of None \<Rightarrow> 0 | Some c \<Rightarrow> length (rx c))")
  show "wf (measure (\<lambda>(p, e). case control_channel p of None \<Rightarrow> 0 | Some c \<Rightarrow> length (rx c)))"
    by simp
next
  fix provider :: pv_display_provider and e :: env and x c1 p1 xa c2 y p2 e2
  assume h1: "x = (if length_h (current_packet_header provider) = 0
                   then provider_try_to_read_header provider else (False, provider))"
    and x: "(c1, p1) = x"
    and h2: "xa = (if 0 < length_h (current_packet_header p1)
                   then provider_try_to_receive_control_packet p1 e else (c1, p1, e))"
    and xa: "(c2, y) = xa" and y: "(p2, e2) = y" and c2: "c2"
  have r1: "(case control_channel p1 of None \<Rightarrow> 0 | Some c \<Rightarrow> length (rx c))
            \<le> (case control_channel provider of None \<Rightarrow> 0 | Some c \<Rightarrow> length (rx c))"
    using h1 x
    by (auto simp: provider_try_to_read_header_def libivc_recv_def
             split: if_splits option.splits)
  have r1s: "c1 \<Longrightarrow> (case control_channel p1 of None \<Rightarrow> 0 | Some c \<Rightarrow> length (rx c))
            < (case control_channel provider of None \<Rightarrow> 0 | Some c \<Rightarrow> length (rx c))"
    using h1 x
    by (auto simp: provider_try_to_read_header_def libivc_recv_def sizeof_dh_header_def
             split: if_splits option.splits)
  have r2: "(if 0 < length_h (current_packet_header p1) then True else c1) \<Longrightarrow>
            (case control_channel p2 of None \<Rightarrow> 0 | Some c \<Rightarrow> length (rx c))
            < (case control_channel p1 of None \<Rightarrow> 0 | Some c \<Rightarrow> length (rx c))
            \<or> (c1 \<and> p2 = p1)"
    using h2 xa y c2
    by (auto simp: provider_try_to_receive_control_packet_def libivc_recv_def
                   libivc_getAvailableData_def sizeof_dh_footer_def Let_def
             split: if_splits option.splits)
  have "(case control_channel p2 of None \<Rightarrow> 0 | Some c \<Rightarrow> length (rx c))
        < (case control_channel provider of None \<Rightarrow> 0 | Some c \<Rightarrow> length (rx c))"
  proof (cases "0 < length_h (current_packet_header p1)")
    case True
    with r2 r1 r1s show ?thesis by auto
  next
    case False
    with h2 xa y c2 have "c1" "p2 = p1" by auto
    with r1s show ?thesis by simp
  qed
  then show "((p2, e2), provider, e)
        \<in> measure (\<lambda>(p, e). case control_channel p of None \<Rightarrow> 0 | Some c \<Rightarrow> length (rx c))"
    by simp
qed

text \<open>
  \<^verbatim>\<open>struct dh_driver_capabilities\<close> and its memory image.
\<close>

record dh_driver_capabilities =
  max_displays :: u32
  version :: u32
  flags :: u32
  dh_reserved_word_caps :: u32

definition driver_capabilities_bytes :: "dh_driver_capabilities \<Rightarrow> byte list" where
  "driver_capabilities_bytes c =
     le32 (max_displays c) @ le32 (version c) @ le32 (flags c) @ le32 (dh_reserved_word_caps c)"

text \<open>
  \<^verbatim>\<open>provider_advertise_capabilities\<close>: the initializer names \<^verbatim>\<open>max_displays\<close> and
  \<^verbatim>\<open>version\<close>; the members it does not name are zero.
\<close>

definition provider_advertise_capabilities ::
  "pv_display_provider \<Rightarrow> u32 \<Rightarrow> env \<Rightarrow> int \<times> pv_display_provider \<times> env" where
  "provider_advertise_capabilities provider max_disp e =
     (let caps = \<lparr> max_displays = max_disp, version = PV_DRIVER_INTERFACE_VERSION,
                    flags = 0, dh_reserved_word_caps = 0 \<rparr>;
          (rc, ch, e1) = send_packet (control_channel provider)
                           PACKET_TYPE_CONTROL_DRIVER_CAPABILITIES
                           (driver_capabilities_bytes caps) e
      in (if rc \<noteq> 0 then rc else 0, provider\<lparr>control_channel := ch\<rparr>, e1))"

definition provider_register_host_display_change_handler ::
  "pv_display_provider \<Rightarrow> handler option \<Rightarrow> pv_display_provider" where
  "provider_register_host_display_change_handler provider h =
     provider\<lparr>host_display_change_handler := h,
               capabilities := capabilities provider OR DH_CAP_RESIZE\<rparr>"

definition provider_register_add_display_request_handler ::
  "pv_display_provider \<Rightarrow> handler option \<Rightarrow> pv_display_provider" where
  "provider_register_add_display_request_handler provider h =
     provider\<lparr>add_display_handler := h,
               capabilities := capabilities provider OR DH_CAP_HOTPLUG\<rparr>"

definition provider_register_remove_display_request_handler ::
  "pv_display_provider \<Rightarrow> handler option \<Rightarrow> pv_display_provider" where
  "provider_register_remove_display_request_handler provider h =
     provider\<lparr>remove_display_handler := h,
               capabilities := capabilities provider OR DH_CAP_HOTPLUG\<rparr>"

definition provider_register_fatal_error_handler ::
  "pv_display_provider \<Rightarrow> handler option \<Rightarrow> pv_display_provider" where
  "provider_register_fatal_error_handler provider h = provider\<lparr>fatal_error_handler := h\<rparr>"

section \<open>The consumer's control session (\<^verbatim>\<open>pv_display_backend_helper.c\<close>)\<close>

text \<open>
  \<^verbatim>\<open>struct pv_display_consumer\<close>.  Fields that share a name with a field of the
  provider carry the suffix \<open>_c\<close>.
\<close>

record pv_display_consumer =
  control_channel_c :: "libivc_client option"
  current_packet_header_c :: dh_header
  driver_capabilities_handler :: "handler option"
  advertised_list_handler :: "handler option"
  display_no_longer_available_handler :: "handler option"
  text_mode_handler :: "handler option"
  fatal_error_handler_c :: "handler option"

definition trigger_fatal_error_on_consumer :: "pv_display_consumer \<Rightarrow> env \<Rightarrow> env" where
  "trigger_fatal_error_on_consumer consumer e =
     (case fatal_error_handler_c consumer of
        None \<Rightarrow> e
      | Some h \<Rightarrow> call (ConsumerFatalError h) e)"


definition handle_guest_driver_capabilities_event ::
  "pv_display_consumer \<Rightarrow> byte list \<Rightarrow> env \<Rightarrow> env" where
  "handle_guest_driver_capabilities_event consumer request e =
     (case driver_capabilities_handler consumer of
        None \<Rightarrow> e
      | Some h \<Rightarrow> call (DriverCapabilities h request) e)"

definition handle_advertised_display_list_request ::
  "pv_display_consumer \<Rightarrow> byte list \<Rightarrow> env \<Rightarrow> env" where
  "handle_advertised_display_list_request consumer request e =
     (case advertised_list_handler consumer of
        None \<Rightarrow> e
      | Some h \<Rightarrow> call (AdvertisedList h request) e)"

definition handle_display_no_longer_available_request ::
  "pv_display_consumer \<Rightarrow> byte list \<Rightarrow> env \<Rightarrow> env" where
  "handle_display_no_longer_available_request consumer request e =
     (case display_no_longer_available_handler consumer of
        None \<Rightarrow> e
      | Some h \<Rightarrow> call (DisplayNoLongerAvailable h request) e)"

definition handle_text_mode_request ::
  "pv_display_consumer \<Rightarrow> byte list \<Rightarrow> env \<Rightarrow> env" where
  "handle_text_mode_request consumer request e =
     (case text_mode_handler consumer of
        None \<Rightarrow> e
      | Some h \<Rightarrow> call (TextMode h request) e)"

definition consumer_handle_control_packet_receipt ::
  "pv_display_consumer \<Rightarrow> dh_header \<Rightarrow> byte list \<Rightarrow> env \<Rightarrow> env" where
  "consumer_handle_control_packet_receipt consumer header buffer e =
     (let e0 = call (PacketReceipt header buffer) e
      in if type_h header = PACKET_TYPE_CONTROL_DRIVER_CAPABILITIES
           then handle_guest_driver_capabilities_event consumer buffer e0
         else if type_h header = PACKET_TYPE_CONTROL_ADVERTISED_DISPLAY_LIST
           then handle_advertised_display_list_request consumer buffer e0
         else if type_h header = PACKET_TYPE_CONTROL_DISPLAY_NO_LONGER_AVAILABLE
           then handle_display_no_longer_available_request consumer buffer e0
         else if type_h header = PACKET_TYPE_CONTROL_TEXT_MODE
           then handle_text_mode_request consumer buffer e0
         else e0)"

definition consumer_try_to_receive_control_packet ::
  "pv_display_consumer \<Rightarrow> env \<Rightarrow> bool \<times> pv_display_consumer \<times> env" where
  "consumer_try_to_receive_control_packet consumer e =
     (let len = unat (length_h (current_packet_header_c consumer));
          length_with_footer = len + sizeof_dh_footer
      in case libivc_getAvailableData (control_channel_c consumer) of
           None \<Rightarrow> (False, consumer, trigger_fatal_error_on_consumer consumer e)
         | Some data_available \<Rightarrow>
             if data_available < length_with_footer then (False, consumer, e)
             else
               (case pv_helper_malloc length_with_footer e of
                 None \<Rightarrow> (False, consumer, e)
               | Some e1 \<Rightarrow>
                   (case libivc_recv (control_channel_c consumer) length_with_footer of
                      None \<Rightarrow> (False, consumer, pv_helper_free length_with_footer e1)
                    | Some (buffer, ch) \<Rightarrow>
                        let c1 = consumer\<lparr>control_channel_c := ch\<rparr>;
                            checksum = pv_helper_packet_checksum
                                         (current_packet_header_c c1) buffer len;
                            c2 = c1\<lparr>current_packet_header_c :=
                                      (current_packet_header_c c1)\<lparr>length_h := 0\<rparr>\<rparr>
                        in if checksum \<noteq> footer_crc buffer len
                           then (False, c2,
                                 trigger_fatal_error_on_consumer c2
                                   (pv_helper_free length_with_footer e1))
                           else (True, c2,
                                 pv_helper_free length_with_footer
                                   (consumer_handle_control_packet_receipt c2
                                      (current_packet_header_c c2) buffer e1)))))"


text \<open>\<^verbatim>\<open>struct dh_add_display\<close> and \<^verbatim>\<open>struct dh_remove_display\<close> in memory.\<close>

definition add_display_bytes :: "u32 \<Rightarrow> u32 \<Rightarrow> u32 \<Rightarrow> u32 \<Rightarrow> u32 \<Rightarrow> byte list" where
  "add_display_bytes key event_port framebuffer_port dirty_rectangles_port cursor_bitmap_port =
     le32 key @ le32 event_port @ le32 framebuffer_port @ le32 dirty_rectangles_port
       @ le32 cursor_bitmap_port"

definition remove_display_bytes :: "u32 \<Rightarrow> byte list" where
  "remove_display_bytes key = le32 key"

text \<open>
  \<^verbatim>\<open>consumer_add_display\<close> and \<^verbatim>\<open>consumer_remove_display\<close>: the return code of
  \<^verbatim>\<open>__send_packet\<close> is logged when it is not zero; the function ends in
  \<^verbatim>\<open>return 0\<close>.
\<close>

definition consumer_add_display ::
  "pv_display_consumer \<Rightarrow> u32 \<Rightarrow> u32 \<Rightarrow> u32 \<Rightarrow> u32 \<Rightarrow> u32 \<Rightarrow> env
     \<Rightarrow> int \<times> pv_display_consumer \<times> env" where
  "consumer_add_display consumer key event_port framebuffer_port dirty_rectangles_port
       cursor_bitmap_port e =
     (let payload = add_display_bytes key event_port framebuffer_port dirty_rectangles_port
                      cursor_bitmap_port;
          (rc, ch, e1) = send_packet (control_channel_c consumer)
                           PACKET_TYPE_CONTROL_ADD_DISPLAY payload e
      in (0, consumer\<lparr>control_channel_c := ch\<rparr>, e1))"

definition consumer_remove_display ::
  "pv_display_consumer \<Rightarrow> u32 \<Rightarrow> env \<Rightarrow> int \<times> pv_display_consumer \<times> env" where
  "consumer_remove_display consumer key e =
     (let payload = remove_display_bytes key;
          (rc, ch, e1) = send_packet (control_channel_c consumer)
                           PACKET_TYPE_CONTROL_REMOVE_DISPLAY payload e
      in (0, consumer\<lparr>control_channel_c := ch\<rparr>, e1))"

section \<open>The display backend (\<^verbatim>\<open>pv_display_backend_helper.c\<close>)\<close>

definition PACKET_TYPE_EVENT_SET_DISPLAY :: u32 where "PACKET_TYPE_EVENT_SET_DISPLAY = 101"
definition PACKET_TYPE_EVENT_UPDATE_CURSOR :: u32 where "PACKET_TYPE_EVENT_UPDATE_CURSOR = 102"
definition PACKET_TYPE_EVENT_MOVE_CURSOR :: u32 where "PACKET_TYPE_EVENT_MOVE_CURSOR = 103"
definition PACKET_TYPE_EVENT_BLANK_DISPLAY :: u32 where "PACKET_TYPE_EVENT_BLANK_DISPLAY = 104"

definition sizeof_dh_dirty_rectangle :: nat where "sizeof_dh_dirty_rectangle = 16"

text \<open>
  \<^verbatim>\<open>struct pv_display_backend\<close>.  Fields that share a name with a field of another
  object carry the suffix \<open>_b\<close>.
\<close>

record pv_display_backend =
  event_connection_b :: "libivc_client option"
  dirty_rectangles_connection_b :: "libivc_client option"
  current_packet_header_b :: dh_header
  disconnected :: bool
  set_display_handler :: "handler option"
  update_cursor_handler :: "handler option"
  move_cursor_handler :: "handler option"
  blank_display_handler :: "handler option"
  dirty_rectangle_handler :: "handler option"
  fatal_error_handler_b :: "handler option"

text \<open>
  \<^verbatim>\<open>__try_to_read_event_header\<close>: the return code of the data query is not looked
  at; \<^verbatim>\<open>available_data\<close> starts as 0 and keeps that value when the query fails.
\<close>

definition try_to_read_event_header ::
  "pv_display_backend \<Rightarrow> bool \<times> pv_display_backend" where
  "try_to_read_event_header display =
     (let available_data = (case libivc_getAvailableData (event_connection_b display) of
                              None \<Rightarrow> 0 | Some n \<Rightarrow> n)
      in if available_data \<ge> sizeof_dh_header
         then (case libivc_recv (event_connection_b display) sizeof_dh_header of
                 None \<Rightarrow> (False, display)
               | Some (bs, ch) \<Rightarrow>
                   (True, display\<lparr>event_connection_b := ch,
                                  current_packet_header_b := header_of_bytes bs\<rparr>))
         else (False, display))"

definition handle_set_display_request :: "pv_display_backend \<Rightarrow> byte list \<Rightarrow> env \<Rightarrow> env" where
  "handle_set_display_request display request e =
     (case set_display_handler display of
        None \<Rightarrow> e
      | Some h \<Rightarrow> call (SetDisplay h (read_u32 request 0) (read_u32 request 4)
                           (read_u32 request 8)) e)"

definition handle_update_cursor_request :: "pv_display_backend \<Rightarrow> byte list \<Rightarrow> env \<Rightarrow> env" where
  "handle_update_cursor_request display request e =
     (case update_cursor_handler display of
        None \<Rightarrow> e
      | Some h \<Rightarrow> call (UpdateCursor h (read_u32 request 0) (read_u32 request 4)
                             (read_u32 request 8)) e)"

definition handle_move_cursor_request :: "pv_display_backend \<Rightarrow> byte list \<Rightarrow> env \<Rightarrow> env" where
  "handle_move_cursor_request display request e =
     (case move_cursor_handler display of
        None \<Rightarrow> e
      | Some h \<Rightarrow> call (MoveCursor h (read_u32 request 0) (read_u32 request 4)) e)"

text \<open>\<^verbatim>\<open>request->reason\<close> is the second word of \<^verbatim>\<open>struct dh_blanking\<close>.\<close>

definition handle_blank_display_request :: "pv_display_backend \<Rightarrow> byte list \<Rightarrow> env \<Rightarrow> env" where
  "handle_blank_display_request display request e =
     (case blank_display_handler display of
        None \<Rightarrow> e
      | Some h \<Rightarrow> call (BlankDisplay h (read_u32 request 4)) e)"

definition handle_event_packet_receipt ::
  "pv_display_backend \<Rightarrow> dh_header \<Rightarrow> byte list \<Rightarrow> env \<Rightarrow> env" where
  "handle_event_packet_receipt display header buffer e =
     (let e0 = call (PacketReceipt header buffer) e
      in if type_h header = PACKET_TYPE_EVENT_SET_DISPLAY
           then handle_set_display_request display buffer e0
         else if type_h header = PACKET_TYPE_EVENT_BLANK_DISPLAY
           then handle_blank_display_request display buffer e0
         else if type_h header = PACKET_TYPE_EVENT_UPDATE_CURSOR
           then handle_update_cursor_request display buffer e0
         else if type_h header = PACKET_TYPE_EVENT_MOVE_CURSOR
           then handle_move_cursor_request display buffer e0
         else e0)"

text \<open>
  \<^verbatim>\<open>__try_to_receive_event_packet\<close>.  Neither the failing data query nor the CRC
  mismatch calls a fatal-error function here.
\<close>

definition try_to_receive_event_packet ::
  "pv_display_backend \<Rightarrow> env \<Rightarrow> bool \<times> pv_display_backend \<times> env" where
  "try_to_receive_event_packet display e =
     (let len = unat (length_h (current_packet_header_b display));
          length_with_footer = len + sizeof_dh_footer
      in case libivc_getAvailableData (event_connection_b display) of
           None \<Rightarrow> (False, display, e)
         | Some data_available \<Rightarrow>
             if data_available < length_with_footer then (False, display, e)
             else
               (case pv_helper_malloc length_with_footer e of
                 None \<Rightarrow> (False, display, e)
               | Some e1 \<Rightarrow>
                   (case libivc_recv (event_connection_b display) length_with_footer of
                      None \<Rightarrow> (False, display, pv_helper_free length_with_footer e1)
                    | Some (buffer, ch) \<Rightarrow>
                        let d1 = display\<lparr>event_connection_b := ch\<rparr>;
                            checksum = pv_helper_packet_checksum
                                         (current_packet_header_b d1) buffer len;
                            d2 = d1\<lparr>current_packet_header_b :=
                                      (current_packet_header_b d1)\<lparr>length_h := 0\<rparr>\<rparr>
                        in if checksum \<noteq> footer_crc buffer len
                           then (False, d2, pv_helper_free length_with_footer e1)
                           else (True, d2,
                                 pv_helper_free length_with_footer
                                   (handle_event_packet_receipt d2
                                      (current_packet_header_b d2) buffer e1)))))"

function event_channel_loop ::
  "pv_display_backend \<Rightarrow> env \<Rightarrow> pv_display_backend \<times> env" where
  "event_channel_loop display e =
     (let (c1, p1) = (if length_h (current_packet_header_b display) = 0
                      then try_to_read_event_header display else (False, display));
          (c2, p2, e2) = (if length_h (current_packet_header_b p1) > 0
                          then try_to_receive_event_packet p1 e else (c1, p1, e))
      in if c2 then event_channel_loop p2 e2 else (p2, e2))"
  by pat_completeness auto
termination
proof (relation "measure (\<lambda>(p, e). case event_connection_b p of None \<Rightarrow> 0 | Some c \<Rightarrow> length (rx c))")
  show "wf (measure (\<lambda>(p, e). case event_connection_b p of None \<Rightarrow> 0 | Some c \<Rightarrow> length (rx c)))"
    by simp
next
  fix display :: pv_display_backend and e :: env and x c1 p1 xa c2 y p2 e2
  assume h1: "x = (if length_h (current_packet_header_b display) = 0
                   then try_to_read_event_header display else (False, display))"
    and x: "(c1, p1) = x"
    and h2: "xa = (if 0 < length_h (current_packet_header_b p1)
                   then try_to_receive_event_packet p1 e else (c1, p1, e))"
    and xa: "(c2, y) = xa" and y: "(p2, e2) = y" and c2: "c2"
  have r1: "(case event_connection_b p1 of None \<Rightarrow> 0 | Some c \<Rightarrow> length (rx c))
            \<le> (case event_connection_b display of None \<Rightarrow> 0 | Some c \<Rightarrow> length (rx c))"
    using h1 x
    by (auto simp: try_to_read_event_header_def libivc_recv_def Let_def
             split: if_splits option.splits)
  have r1s: "c1 \<Longrightarrow> (case event_connection_b p1 of None \<Rightarrow> 0 | Some c \<Rightarrow> length (rx c))
            < (case event_connection_b display of None \<Rightarrow> 0 | Some c \<Rightarrow> length (rx c))"
    using h1 x
    by (auto simp: try_to_read_event_header_def libivc_recv_def sizeof_dh_header_def Let_def
             split: if_splits option.splits)
  have r2: "(if 0 < length_h (current_packet_header_b p1) then True else c1) \<Longrightarrow>
            (case event_connection_b p2 of None \<Rightarrow> 0 | Some c \<Rightarrow> length (rx c))
            < (case event_connection_b p1 of None \<Rightarrow> 0 | Some c \<Rightarrow> length (rx c))
            \<or> (c1 \<and> p2 = p1)"
    using h2 xa y c2
    by (auto simp: try_to_receive_event_packet_def libivc_recv_def
                   libivc_getAvailableData_def sizeof_dh_footer_def Let_def
             split: if_splits option.splits)
  have "(case event_connection_b p2 of None \<Rightarrow> 0 | Some c \<Rightarrow> length (rx c))
        < (case event_connection_b display of None \<Rightarrow> 0 | Some c \<Rightarrow> length (rx c))"
  proof (cases "0 < length_h (current_packet_header_b p1)")
    case True
    with r2 r1 r1s show ?thesis by auto
  next
    case False
    with h2 xa y c2 have "c1" "p2 = p1" by auto
    with r1s show ?thesis by simp
  qed
  then show "((p2, e2), display, e)
        \<in> measure (\<lambda>(p, e). case event_connection_b p of None \<Rightarrow> 0 | Some c \<Rightarrow> length (rx c))"
    by simp
qed

text \<open>\<^verbatim>\<open>__handle_event_channel_event\<close>: nothing is read on a disconnected display.\<close>

definition handle_event_channel_event ::
  "pv_display_backend \<Rightarrow> env \<Rightarrow> pv_display_backend \<times> env" where
  "handle_event_channel_event display e =
     (if disconnected display then (display, e) else event_channel_loop display e)"

text \<open>
  \<^verbatim>\<open>__handle_dirty_rectangle_event\<close>.  The client of the callback is the display's
  dirty-rectangle connection.  Each round clears \<^verbatim>\<open>rect\<close>, reads 16 bytes into it and
  calls \<^verbatim>\<open>display->dirty_rectangle_handler\<close>; the pointer is not compared with
  \<^verbatim>\<open>NULL\<close>.  A call through a \<^verbatim>\<open>NULL\<close> pointer ends the run.
\<close>

function dirty_rectangle_loop ::
  "nat \<Rightarrow> pv_display_backend \<Rightarrow> env \<Rightarrow> pv_display_backend \<times> env" where
  "dirty_rectangle_loop available_data display e =
     (if available_data \<ge> sizeof_dh_dirty_rectangle
         \<and> libivc_isOpen (dirty_rectangles_connection_b display)
         \<and> dirty_rectangles_connection_b display \<noteq> None
      then
        let (rect, ch) =
              (case libivc_recv (dirty_rectangles_connection_b display)
                      sizeof_dh_dirty_rectangle of
                 None \<Rightarrow> (replicate sizeof_dh_dirty_rectangle 0,
                           dirty_rectangles_connection_b display)
               | Some (bs, ch') \<Rightarrow> (bs, ch'));
            d1 = display\<lparr>dirty_rectangles_connection_b := ch\<rparr>
        in case dirty_rectangle_handler d1 of
             None \<Rightarrow> (d1, call NullCall e)
           | Some h \<Rightarrow>
               dirty_rectangle_loop (available_data - sizeof_dh_dirty_rectangle) d1
                 (call (DirtyRectangle h (u32_of_le (take 4 rect))
                          (u32_of_le (take 4 (drop 4 rect)))
                          (u32_of_le (take 4 (drop 8 rect)))
                          (u32_of_le (take 4 (drop 12 rect)))) e)
      else (display, e))"
  by pat_completeness auto
termination
  by (relation "measure (\<lambda>(n, d, e). n)") (auto simp: sizeof_dh_dirty_rectangle_def)

definition handle_dirty_rectangle_event ::
  "pv_display_backend \<Rightarrow> env \<Rightarrow> pv_display_backend \<times> env" where
  "handle_dirty_rectangle_event display e =
     (let available_data =
            (case libivc_getAvailableData (dirty_rectangles_connection_b display) of
               None \<Rightarrow> 0 | Some n \<Rightarrow> n)
      in dirty_rectangle_loop available_data display e)"

text \<open>The registration functions of the backend: each stores the pointer it is given.\<close>

definition display_register_dirty_rectangle_handler ::
  "pv_display_backend \<Rightarrow> handler option \<Rightarrow> pv_display_backend" where
  "display_register_dirty_rectangle_handler display h = display\<lparr>dirty_rectangle_handler := h\<rparr>"

definition display_register_move_cursor_handler ::
  "pv_display_backend \<Rightarrow> handler option \<Rightarrow> pv_display_backend" where
  "display_register_move_cursor_handler display h = display\<lparr>move_cursor_handler := h\<rparr>"

definition display_register_update_cursor_handler ::
  "pv_display_backend \<Rightarrow> handler option \<Rightarrow> pv_display_backend" where
  "display_register_update_cursor_handler display h = display\<lparr>update_cursor_handler := h\<rparr>"

definition display_register_set_display_handler ::
  "pv_display_backend \<Rightarrow> handler option \<Rightarrow> pv_display_backend" where
  "display_register_set_display_handler display h = display\<lparr>set_display_handler := h\<rparr>"

definition display_register_blank_display_handler ::
  "pv_display_backend \<Rightarrow> handler option \<Rightarrow> pv_display_backend" where
  "display_register_blank_display_handler display h = display\<lparr>blank_display_handler := h\<rparr>"

definition display_register_fatal_error_handler ::
  "pv_display_backend \<Rightarrow> handler option \<Rightarrow> pv_display_backend" where
  "display_register_fatal_error_handler display h = display\<lparr>fatal_error_handler_b := h\<rparr>"

subsection \<open>Fatal errors of a display backend\<close>

text \<open>
  A fault is a disconnect callback on one of the display's channels.  The user's
  fatal-error handler may tear the display down, which raises further disconnect
  callbacks while the handler is still running: these are the children of the fault.
  (Mutexes are not modelled.)
\<close>

datatype fault = Disconnect "fault list"

text \<open>
  \<^verbatim>\<open>__trigger_fatal_error_on_display_backend\<close>, as reached from the four disconnect
  callbacks of the backend: the handler pointer is copied, cleared, and then called.
\<close>

fun trigger_fatal_error_on_display_backend ::
  "fault \<Rightarrow> pv_display_backend \<times> env \<Rightarrow> pv_display_backend \<times> env" where
  "trigger_fatal_error_on_display_backend (Disconnect nested) (display, e) =
     (case fatal_error_handler_b display of
        None \<Rightarrow> (display, e)
      | Some tmp_fn \<Rightarrow>
          fold trigger_fatal_error_on_display_backend nested
            (display\<lparr>fatal_error_handler_b := None\<rparr>, call (BackendFatalError tmp_fn) e))"

section \<open>The provider's display (\<^verbatim>\<open>pv_display_helper.c\<close>)\<close>





text \<open>
  \<^verbatim>\<open>struct pv_cursor\<close>: \<^verbatim>\<open>image\<close> (here \<open>image_c\<close>) is the shared cursor buffer, or
  \<^verbatim>\<open>NULL\<close> when the display has no hardware cursor.
\<close>

record pv_cursor =
  image_c :: "byte list option"
  hotspot_x :: u32
  hotspot_y :: u32
  visible :: bool

text \<open>
  \<^verbatim>\<open>struct pv_display\<close>.  The fatal-error handler carries the suffix \<open>_d\<close>.
\<close>

record pv_display =
  width :: u32
  height :: u32
  stride :: u32
  cursor :: pv_cursor
  event_connection :: "libivc_client option"
  dirty_rectangles_connection :: "libivc_client option"
  fatal_error_handler_d :: "handler option"

definition trigger_fatal_error_on_display :: "pv_display \<Rightarrow> env \<Rightarrow> env" where
  "trigger_fatal_error_on_display display e =
     (case fatal_error_handler_d display of
        None \<Rightarrow> e
      | Some h \<Rightarrow> call (DisplayFatalError h) e)"

text \<open>\<^verbatim>\<open>struct dh_dirty_rectangle\<close> in memory.\<close>

definition dirty_rectangle_bytes :: "u32 \<Rightarrow> u32 \<Rightarrow> u32 \<Rightarrow> u32 \<Rightarrow> byte list" where
  "dirty_rectangle_bytes x y w h = le32 x @ le32 y @ le32 w @ le32 h"










subsection \<open>Disconnects of a provider display\<close>

text \<open>
  \<^verbatim>\<open>__handle_disconnect_for_connection\<close>, the body of the four disconnect callbacks
  of a display.  \<open>handler_in_progress\<close> is the function's \<^verbatim>\<open>static bool\<close>: it is set
  before the fatal-error handler is triggered and cleared after it returns.  The
  children of the fault are the disconnects raised while the user's handler runs.
\<close>

fun handle_disconnect_for_connection ::
  "pv_display \<Rightarrow> fault \<Rightarrow> bool \<times> env \<Rightarrow> bool \<times> env" where
  "handle_disconnect_for_connection display (Disconnect nested) (handler_in_progress, e) =
     (if handler_in_progress then (handler_in_progress, e)
      else
        let (in_progress, e1) =
              (case fatal_error_handler_d display of
                 None \<Rightarrow> (True, e)
               | Some h \<Rightarrow>
                   fold (handle_disconnect_for_connection display) nested
                     (True, call (DisplayFatalError h) e))
        in (False, e1))"

section \<open>Sample objects\<close>

text \<open>Concrete objects at which the properties below are instantiated.\<close>

definition sample_env :: env where
  "sample_env = \<lparr> trace = [], heap_avail = 4096 \<rparr>"

definition sample_client :: libivc_client where
  "sample_client = \<lparr> is_open = True, rx = [], data_rc = 0, space = 4096, space_rc = 0,
                      send_rc = 0, send_calls = [], notifies = 0 \<rparr>"

definition sample_header :: dh_header where
  "sample_header = \<lparr> magic1 = 0, magic2 = 0, type_h = 0, length_h = 0, dh_reserved_word = 0 \<rparr>"

definition sample_provider :: pv_display_provider where
  "sample_provider = \<lparr> control_channel = Some sample_client, capabilities = 0,
       current_packet_header = sample_header, host_display_change_handler = None,
       add_display_handler = None, remove_display_handler = None,
       fatal_error_handler = Some 9 \<rparr>"

definition sample_consumer :: pv_display_consumer where
  "sample_consumer = \<lparr> control_channel_c = Some sample_client,
       current_packet_header_c = sample_header, driver_capabilities_handler = Some 5,
       advertised_list_handler = Some 6, display_no_longer_available_handler = Some 7,
       text_mode_handler = Some 8, fatal_error_handler_c = Some 9 \<rparr>"

definition sample_backend :: pv_display_backend where
  "sample_backend = \<lparr> event_connection_b = Some sample_client,
       dirty_rectangles_connection_b = Some sample_client,
       current_packet_header_b = sample_header, disconnected = False,
       set_display_handler = Some 1, update_cursor_handler = Some 2,
       move_cursor_handler = Some 3, blank_display_handler = Some 4,
       dirty_rectangle_handler = None, fatal_error_handler_b = Some 9 \<rparr>"

definition sample_display :: pv_display where
  "sample_display = \<lparr> width = 1920, height = 1080, stride = 7680,
       cursor = \<lparr> image_c = Some (replicate 16384 0xAA), hotspot_x = 0, hotspot_y = 0,
                  visible = True \<rparr>,
       event_connection = Some sample_client,
       dirty_rectangles_connection = Some sample_client,
       fatal_error_handler_d = Some 9 \<rparr>"

section \<open>Properties\<close>

text \<open>The loop equations are unfolded by hand.\<close>

declare provider_handle_control_channel_event.simps [simp del]
declare event_channel_loop.simps [simp del]
declare dirty_rectangle_loop.simps [simp del]

subsection \<open>Packet emission\<close>

lemma send_packet_closed:
  "\<not> libivc_isOpen ch \<Longrightarrow> send_packet ch ty data e = (- ENOENT, ch, e)"
  by (simp add: send_packet_def)



subsection \<open>Adding and removing displays from the consumer\<close>

text \<open>
  Claim C10.  \<^verbatim>\<open>consumer_add_display\<close> and \<^verbatim>\<open>consumer_remove_display\<close> return 0
  whatever \<^verbatim>\<open>__send_packet\<close> returned; in particular on a control channel that is
  not open the send fails with \<open>-ENOENT\<close>, nothing changes, and the caller still
  gets 0.
\<close>

theorem consumer_add_remove_return_zero:
  "fst (consumer_add_display consumer key event_port framebuffer_port dirty_rectangles_port
          cursor_bitmap_port e) = 0
   \<and> fst (consumer_remove_display consumer key e) = 0
   \<and> (\<not> libivc_isOpen (control_channel_c consumer) \<longrightarrow>
        fst (send_packet (control_channel_c consumer) PACKET_TYPE_CONTROL_ADD_DISPLAY
               (add_display_bytes key event_port framebuffer_port dirty_rectangles_port
                  cursor_bitmap_port) e) = - ENOENT
        \<and> fst (send_packet (control_channel_c consumer) PACKET_TYPE_CONTROL_REMOVE_DISPLAY
               (remove_display_bytes key) e) = - ENOENT
        \<and> consumer_add_display consumer key event_port framebuffer_port dirty_rectangles_port
          cursor_bitmap_port e = (0, consumer, e)
        \<and> consumer_remove_display consumer key e = (0, consumer, e))"
  by (auto simp: consumer_add_display_def consumer_remove_display_def send_packet_closed
           split: prod.splits)

theorem consumer_add_remove_return_zero_witness:
  "fst (consumer_add_display (sample_consumer\<lparr>control_channel_c := None\<rparr>) 1 2000 2001 2002 2003
          sample_env) = 0
   \<and> fst (send_packet None PACKET_TYPE_CONTROL_ADD_DISPLAY
           (add_display_bytes 1 2000 2001 2002 2003) sample_env) = - ENOENT
   \<and> consumer_remove_display (sample_consumer\<lparr>control_channel_c := None\<rparr>) 1 sample_env
       = (0, sample_consumer\<lparr>control_channel_c := None\<rparr>, sample_env)"
  using consumer_add_remove_return_zero [of "sample_consumer\<lparr>control_channel_c := None\<rparr>"
      1 2000 2001 2002 2003 sample_env]
  by (simp add: libivc_isOpen_def)

subsection \<open>Dirty rectangles\<close>




subsection \<open>The CRC changes when one byte changes\<close>

text \<open>
  The top nibble of the table entry is its index, so one nibble step can be undone: for
  a fixed byte it is injective in the running CRC, and for a fixed running CRC the result
  determines the nibble.
\<close>

lemma tbl_top_all: "\<forall>i\<in>set [0..<16]. drop_bit 12 (crc_tbl ! i) = (of_nat i :: u16)"
  by code_simp

lemma tbl_top: "i < 16 \<Longrightarrow> drop_bit 12 (crc_tbl ! i) = (of_nat i :: u16)"
  using tbl_top_all by simp

lemma m12: "(0x0fff::u16) = mask 12" by (simp add: mask_eq_exp_minus_1)
lemma m4: "(15::u16) = mask 4" by (simp add: mask_eq_exp_minus_1)

lemma shifted_top: "drop_bit 12 (drop_bit 4 (x::u16) AND 0x0fff) = 0"
  unfolding m12 by (rule bit_eqI) (auto simp: bit_simps)

lemma mask12: "drop_bit 4 (x::u16) AND 0x0fff = drop_bit 4 x"
  unfolding m12 by (rule bit_eqI) (auto simp: bit_simps dest: bit_imp_le_length)

lemma nib_lt: "unat ((x::u16) AND 15) < 16"
proof -
  have "unat (x AND 15) \<le> unat (15 :: u16)"
    by (rule word_and_le1 [THEN word_le_nat_alt [THEN iffD1]])
  then show ?thesis by simp
qed

lemma nibble_top: "drop_bit 12 (crc_nibble crc c) = (crc XOR ucast c) AND 15"
  unfolding crc_nibble_def
  by (simp add: drop_bit_xor shifted_top tbl_top nib_lt)

lemma low_nib_cancel: "((a::u16) XOR c) AND 15 = (b XOR c) AND 15 \<Longrightarrow> a AND 15 = b AND 15"
proof -
  assume h: "(a XOR c) AND 15 = (b XOR c) AND 15"
  have "\<And>x. (x::u16) AND 15 = ((x XOR c) AND 15) XOR (c AND 15)"
    by (rule bit_eqI) (auto simp: bit_simps)
  then show ?thesis using h by metis
qed

lemma split_nib: "drop_bit 4 (a::u16) = drop_bit 4 b \<Longrightarrow> a AND 15 = b AND 15 \<Longrightarrow> a = b"
proof -
  assume h1: "drop_bit 4 a = drop_bit 4 b" and h2: "a AND 15 = b AND 15"
  have "\<And>x::u16. x = push_bit 4 (drop_bit 4 x) OR (x AND 15)"
    unfolding m4 by (rule bit_eqI) (auto simp: bit_simps)
  then show ?thesis using h1 h2 by metis
qed

lemma xor_cancel_r: "(x::u16) XOR t = y XOR t \<Longrightarrow> x = y"
  by (metis bit.xor_self xor.assoc xor.right_neutral)

lemma crc_nibble_inj_state: "crc_nibble a c = crc_nibble b c \<Longrightarrow> a = b"
proof -
  assume h: "crc_nibble a c = crc_nibble b c"
  then have "drop_bit 12 (crc_nibble a c) = drop_bit 12 (crc_nibble b c)" by simp
  then have idx: "(a XOR ucast c) AND 15 = (b XOR ucast c) AND 15"
    by (simp add: nibble_top)
  then have low: "a AND 15 = b AND 15" by (rule low_nib_cancel)
  from h idx have "drop_bit 4 a AND 0x0fff = drop_bit 4 b AND 0x0fff"
    by (auto simp: crc_nibble_def dest: xor_cancel_r)
  then have "drop_bit 4 a = drop_bit 4 b" by (simp add: mask12)
  then show ?thesis using low by (rule split_nib)
qed

lemma crc_byte_inj_state: "crc_byte a c = crc_byte b c \<Longrightarrow> a = b"
  unfolding crc_byte_def by (blast dest: crc_nibble_inj_state)

lemma crc_nibble_idx:
  "(a XOR ucast c) AND 15 = (a XOR ucast c') AND 15 \<Longrightarrow> crc_nibble a c = crc_nibble a c'"
  by (simp add: crc_nibble_def)

lemma low_nib_cancel2: "((a::u16) XOR c) AND 15 = (a XOR c') AND 15 \<Longrightarrow> c AND 15 = c' AND 15"
  by (metis low_nib_cancel xor.commute)

lemma byte_eq_from_nibbles:
  assumes lo: "(ucast (c::byte)::u16) AND 15 = ucast (c'::byte) AND 15"
    and hi: "(ucast (drop_bit 4 c)::u16) AND 15 = ucast (drop_bit 4 c') AND 15"
  shows "c = c'"
proof (rule bit_eqI)
  fix n
  assume "possible_bit TYPE(byte) n"
  then have n8: "n < 8" by (simp add: possible_bit_def)
  have a: "bit ((ucast c::u16) AND mask 4) k = bit ((ucast c'::u16) AND mask 4) k" for k
    using lo by (simp add: m4)
  have b: "bit ((ucast (drop_bit 4 c)::u16) AND mask 4) k
           = bit ((ucast (drop_bit 4 c')::u16) AND mask 4) k" for k
    using hi by (simp add: m4)
  show "bit c n = bit c' n"
  proof (cases "n < 4")
    case True
    with a [of n] show ?thesis by (simp add: bit_simps)
  next
    case False
    with n8 b [of "n - 4"] show ?thesis by (auto simp: bit_simps)
  qed
qed

lemma crc_byte_inj_byte: "crc_byte s c = crc_byte s c' \<Longrightarrow> c = c'"
proof -
  assume h: "crc_byte s c = crc_byte s c'"
  let ?s1 = "crc_nibble s c" and ?s1' = "crc_nibble s c'"
  from h have h': "crc_nibble ?s1 (drop_bit 4 c) = crc_nibble ?s1' (drop_bit 4 c')"
    by (simp add: crc_byte_def)
  then have "drop_bit 12 (crc_nibble ?s1 (drop_bit 4 c)) = drop_bit 12 (crc_nibble ?s1' (drop_bit 4 c'))"
    by simp
  then have idx2: "(?s1 XOR ucast (drop_bit 4 c)) AND 15 = (?s1' XOR ucast (drop_bit 4 c')) AND 15"
    by (simp add: nibble_top)
  with h' have "drop_bit 4 ?s1 AND 0x0fff = drop_bit 4 ?s1' AND 0x0fff"
    by (auto simp: crc_nibble_def [of ?s1] crc_nibble_def [of ?s1'] dest: xor_cancel_r)
  then have d: "drop_bit 4 ?s1 = drop_bit 4 ?s1'" by (simp add: mask12)
  then have "drop_bit 8 (drop_bit 4 ?s1) = drop_bit 8 (drop_bit 4 ?s1')" by simp
  then have "drop_bit 12 ?s1 = drop_bit 12 ?s1'" by (simp add: drop_bit_drop_bit)
  then have idx1: "(s XOR ucast c) AND 15 = (s XOR ucast c') AND 15"
    by (simp add: nibble_top)
  then have s1: "?s1 = ?s1'" by (rule crc_nibble_idx)
  from idx1 have lo: "(ucast c::u16) AND 15 = ucast c' AND 15" by (rule low_nib_cancel2)
  from idx2 s1 have hi: "(ucast (drop_bit 4 c)::u16) AND 15 = ucast (drop_bit 4 c') AND 15"
    by (auto dest: low_nib_cancel2)
  from lo hi show ?thesis by (rule byte_eq_from_nibbles)
qed

lemma foldl_crc_inj_state: "foldl crc_byte a xs = foldl crc_byte b xs \<Longrightarrow> a = b"
  by (induction xs arbitrary: a b) (auto dest: crc_byte_inj_state)

lemma foldl_crc_update:
  assumes "j < length xs" "v \<noteq> xs ! j"
  shows "foldl crc_byte s (xs[j := v]) \<noteq> foldl crc_byte s xs"
proof -
  have xs: "xs = take j xs @ (xs ! j) # drop (Suc j) xs"
    using assms(1) by (simp add: id_take_nth_drop)
  have upd: "xs[j := v] = take j xs @ v # drop (Suc j) xs"
    using assms(1) by (simp add: upd_conv_take_nth_drop)
  show ?thesis
  proof
    assume "foldl crc_byte s (xs[j := v]) = foldl crc_byte s xs"
    then have "foldl crc_byte s (take j xs @ v # drop (Suc j) xs)
             = foldl crc_byte s (take j xs @ (xs ! j) # drop (Suc j) xs)"
      using xs upd by metis
    then have "crc_byte (foldl crc_byte s (take j xs)) v
             = crc_byte (foldl crc_byte s (take j xs)) (xs ! j)"
      by (auto dest: foldl_crc_inj_state)
    then show False using assms(2) by (auto dest: crc_byte_inj_byte)
  qed
qed

subsection \<open>Little-endian images\<close>

lemma u16_le16: "u16_of_le (le16 w) = w"
  unfolding u16_of_le_def le16_def
  by (rule bit_eqI) (auto simp: bit_simps)

lemma u32_le32: "u32_of_le (le32 w) = w"
  unfolding u32_of_le_def le32_def
proof (rule bit_eqI)
  fix n
  assume "possible_bit TYPE(u32) n"
  then have "n < 32" by (simp add: possible_bit_def)
  then consider "n < 8" | "8 \<le> n \<and> n < 16" | "16 \<le> n \<and> n < 24" | "24 \<le> n \<and> n < 32"
    by linarith
  then show "bit (foldr (\<lambda>b acc. ucast b OR push_bit 8 acc)
          [ucast w, ucast (drop_bit 8 w), ucast (drop_bit 16 w), ucast (drop_bit 24 w) :: byte] (0::u32)) n = bit w n"
    by cases (auto simp: bit_simps)
qed

lemma le16_u16: "length xs = 2 \<Longrightarrow> le16 (u16_of_le xs) = xs"
proof -
  assume "length xs = 2"
  then obtain a b where xs: "xs = [a, b]"
    by (auto simp: length_Suc_conv numeral_2_eq_2)
  show ?thesis
    unfolding xs u16_of_le_def le16_def
    apply simp
    apply (intro conjI bit_eqI)
     apply (auto simp: bit_simps dest: bit_imp_le_length)
    done
qed

lemma le32_u32: "length xs = 4 \<Longrightarrow> le32 (u32_of_le xs) = xs"
proof -
  assume "length xs = 4"
  then obtain a b c d where xs: "xs = [a, b, c, d]"
    by (auto simp: length_Suc_conv numeral_eq_Suc)
  show ?thesis
    unfolding xs u32_of_le_def le32_def
    apply simp
    apply (intro conjI bit_eqI)
     apply (auto simp: bit_simps dest: bit_imp_le_length)
    done
qed

lemma length_le16 [simp]: "length (le16 w) = 2" by (simp add: le16_def)
lemma length_le32 [simp]: "length (le32 w) = 4" by (simp add: le32_def)
lemma length_header_bytes [simp]: "length (header_bytes h) = 16"
  by (simp add: header_bytes_def)

lemma header_of_header_bytes: "header_of_bytes (header_bytes h @ rest) = h"
  by (simp add: header_of_bytes_def header_bytes_def u16_le16 u32_le32)

lemma take_drop_chain: "take n (drop k bs) @ drop (k + n) bs = drop k bs"
  by (metis append_take_drop_id drop_drop add.commute)

lemma header_bytes_of_bytes: "length bs = 16 \<Longrightarrow> header_bytes (header_of_bytes bs) = bs"
proof -
  assume len: "length bs = 16"
  have "header_bytes (header_of_bytes bs)
        = take 2 bs @ take 2 (drop 2 bs) @ take 4 (drop 4 bs) @ take 4 (drop 8 bs) @ take 4 (drop 12 bs)"
    using len by (simp add: header_of_bytes_def header_bytes_def le16_u16 le32_u32)
  also have "\<dots> = take 2 bs @ take 2 (drop 2 bs) @ take 4 (drop 4 bs) @ take 4 (drop 8 bs) @ drop 12 bs"
    using len by simp
  also have "\<dots> = take 2 bs @ take 2 (drop 2 bs) @ take 4 (drop 4 bs) @ drop 8 bs"
    using take_drop_chain [of 4 8 bs] by simp
  also have "\<dots> = take 2 bs @ take 2 (drop 2 bs) @ drop 4 bs"
    using take_drop_chain [of 4 4 bs] by simp
  also have "\<dots> = take 2 bs @ drop 2 bs"
    using take_drop_chain [of 2 2 bs] by simp
  finally show ?thesis by simp
qed

subsection \<open>One packet through the provider's decoder\<close>

lemma malloc_ok: "n \<le> heap_avail e \<Longrightarrow> pv_helper_malloc n e = Some (e\<lparr>heap_avail := heap_avail e - n\<rparr>)"
  by (simp add: pv_helper_malloc_def)

lemma provider_receipt_heap:
  "provider_handle_control_packet_receipt p h b (e\<lparr>heap_avail := k\<rparr>)
   = (provider_handle_control_packet_receipt p h b e)\<lparr>heap_avail := k\<rparr>"
  by (simp add: provider_handle_control_packet_receipt_def
      provider_handle_host_display_changed_event_def provider_handle_add_display_request_def
      provider_handle_remove_display_request_def call_def Let_def split: option.splits)

lemma provider_receipt_heap_avail:
  "heap_avail (provider_handle_control_packet_receipt p h b e) = heap_avail e"
  by (simp add: provider_handle_control_packet_receipt_def
      provider_handle_host_display_changed_event_def provider_handle_add_display_request_def
      provider_handle_remove_display_request_def call_def Let_def split: option.splits)

lemma provider_receipt_alloc_free:
  "n \<le> heap_avail e \<Longrightarrow>
   pv_helper_free n (provider_handle_control_packet_receipt p h b (e\<lparr>heap_avail := heap_avail e - n\<rparr>))
   = provider_handle_control_packet_receipt p h b e"
  using provider_receipt_heap_avail [of p h b e]
  by (simp add: provider_receipt_heap pv_helper_free_def)

lemma provider_fatal_alloc_free:
  "n \<le> heap_avail e \<Longrightarrow>
   trigger_fatal_error_on_provider p (pv_helper_free n (e\<lparr>heap_avail := heap_avail e - n\<rparr>))
   = trigger_fatal_error_on_provider p e"
  by (simp add: pv_helper_free_def)

lemma provider_fatal_cong:
  "fatal_error_handler p = fatal_error_handler q \<Longrightarrow>
   trigger_fatal_error_on_provider p e = trigger_fatal_error_on_provider q e"
  by (simp add: trigger_fatal_error_on_provider_def)

lemma provider_idle:
  assumes "control_channel p = Some c" "rx c = []" "length_h (current_packet_header p) = 0"
  shows "provider_handle_control_channel_event p e = (p, e)"
  using assms
  by (subst provider_handle_control_channel_event.simps)
     (simp add: provider_try_to_read_header_def libivc_recv_def sizeof_dh_header_def)

lemma provider_decode_one:
  assumes ch: "control_channel p = Some c" and rc: "data_rc c = 0"
    and idle: "length_h (current_packet_header p) = 0"
    and rx: "rx c = hb @ body @ ft"
    and lhb: "length hb = 16" and lft: "length ft = 8"
    and lbody: "length body = unat (length_h (header_of_bytes hb))"
    and pos: "0 < length body"
    and heap: "length body + 8 \<le> heap_avail e"
  shows "provider_handle_control_channel_event p e =
     (if pv_helper_checksum [hb, body] = u16_of_le (take 2 ft)
      then (p\<lparr>control_channel := Some (c\<lparr>rx := []\<rparr>),
             current_packet_header := (header_of_bytes hb)\<lparr>length_h := 0\<rparr>\<rparr>,
            provider_handle_control_packet_receipt
              (p\<lparr>control_channel := Some (c\<lparr>rx := []\<rparr>),
                 current_packet_header := (header_of_bytes hb)\<lparr>length_h := 0\<rparr>\<rparr>)
              ((header_of_bytes hb)\<lparr>length_h := 0\<rparr>) (body @ ft) e)
      else (p\<lparr>control_channel := Some (c\<lparr>rx := []\<rparr>),
             current_packet_header := (header_of_bytes hb)\<lparr>length_h := 0\<rparr>\<rparr>,
            trigger_fatal_error_on_provider p e))"
proof -
  let ?p1 = "p\<lparr>control_channel := Some (c\<lparr>rx := body @ ft\<rparr>),
               current_packet_header := header_of_bytes hb\<rparr>"
  let ?p2 = "p\<lparr>control_channel := Some (c\<lparr>rx := []\<rparr>),
               current_packet_header := (header_of_bytes hb)\<lparr>length_h := 0\<rparr>\<rparr>"
  let ?n = "length body + 8"
  have rh: "provider_try_to_read_header p = (True, ?p1)"
    using ch rx lhb
    by (simp add: provider_try_to_read_header_def libivc_recv_def sizeof_dh_header_def)
  have nz: "0 < length_h (header_of_bytes hb)"
    using pos lbody by (metis unat_gt_0 word_greater_zero_iff)
  have cs: "pv_helper_packet_checksum (header_of_bytes hb) (body @ ft) (length body)
            = pv_helper_checksum [hb, body]"
    using lhb by (simp add: pv_helper_packet_checksum_def header_bytes_of_bytes)
  have fc: "footer_crc (body @ ft) (length body) = u16_of_le (take 2 ft)"
    by (simp add: footer_crc_def)
  have rcv: "provider_try_to_receive_control_packet ?p1 e =
     (if pv_helper_checksum [hb, body] = u16_of_le (take 2 ft)
      then (True, ?p2, provider_handle_control_packet_receipt ?p2
              ((header_of_bytes hb)\<lparr>length_h := 0\<rparr>) (body @ ft) e)
      else (False, ?p2, trigger_fatal_error_on_provider p e))"
    using rc lft heap lbody [symmetric] cs fc
      provider_receipt_alloc_free [of ?n e ?p2 "(header_of_bytes hb)\<lparr>length_h := 0\<rparr>" "body @ ft"]
      provider_fatal_alloc_free [of ?n e ?p2] provider_fatal_cong [of ?p2 p]
    by (simp add: provider_try_to_receive_control_packet_def libivc_getAvailableData_def
        libivc_recv_def sizeof_dh_footer_def malloc_ok Let_def)
  have idle2: "provider_handle_control_channel_event ?p2 e' = (?p2, e')" for e'
    by (rule provider_idle [of _ "c\<lparr>rx := []\<rparr>"]) simp_all
  show ?thesis
    apply (subst provider_handle_control_channel_event.simps)
    using idle rh nz rcv idle2
    apply (simp add: Let_def)
    done
qed

lemma flip_bit_byte_neq: "i < 8 \<Longrightarrow> flip_bit i (b::byte) \<noteq> b"
proof
  assume i: "i < 8" and eq: "flip_bit i b = b"
  have "bit (flip_bit i b) i = (\<not> bit b i)"
    using i by (simp add: bit_flip_bit_iff)
  with eq show False by simp
qed

lemma length_footer_bytes [simp]: "length (footer_bytes crc) = 8"
  by (simp add: footer_bytes_def)

lemma footer_crc_bytes: "u16_of_le (take 2 (footer_bytes crc)) = crc"
  by (simp add: footer_bytes_def u16_le16)

lemma checksum_two_sections: "pv_helper_checksum [a, b] = pv_helper_blob_checksum (a @ b)"
  by (simp add: pv_helper_checksum_def pv_helper_blob_checksum_def)

lemma blob_checksum_update:
  assumes "j < length xs" "v \<noteq> xs ! j"
  shows "pv_helper_blob_checksum (xs[j := v]) \<noteq> pv_helper_blob_checksum xs"
  using foldl_crc_update [OF assms, of "0xffff"]
  by (simp add: pv_helper_blob_checksum_def pv_helper_checksum_def)

lemma u16_of_le_inj:
  "length xs = 2 \<Longrightarrow> length ys = 2 \<Longrightarrow> u16_of_le xs = u16_of_le ys \<Longrightarrow> xs = ys"
  by (metis le16_u16)

lemma header_length_update:
  "j < 8 \<or> 12 \<le> j \<Longrightarrow> length_h (header_of_bytes (hb[j := v])) = length_h (header_of_bytes hb)"
  by (auto simp: header_of_bytes_def drop_update_cancel take_update_cancel drop_update_swap)

lemma unat_payload_length:
  "length (data :: byte list) \<le> PV_DRIVER_MAX_PAYLOAD_SIZE \<Longrightarrow>
   unat (of_nat (length data) :: u32) = length data"
  by (simp add: unat_of_nat PV_DRIVER_MAX_PAYLOAD_SIZE_def PV_DRIVER_MAX_PACKET_SIZE_def
      sizeof_dh_header_def sizeof_dh_footer_def)

lemma transmit_buffer_split:
  "transmit_buffer ty data =
     header_bytes \<lparr> magic1 = PV_DRIVER_MAGIC1, magic2 = PV_DRIVER_MAGIC2, type_h = ty,
                    length_h = of_nat (length data), dh_reserved_word = 0 \<rparr>
     @ data
     @ footer_bytes (pv_helper_blob_checksum
         (header_bytes \<lparr> magic1 = PV_DRIVER_MAGIC1, magic2 = PV_DRIVER_MAGIC2, type_h = ty,
                    length_h = of_nat (length data), dh_reserved_word = 0 \<rparr> @ data))"
  by (simp add: transmit_buffer_def Let_def)

lemma deliver_empty: "rx c = [] \<Longrightarrow> deliver bs c = c\<lparr>rx := bs\<rparr>"
  by (simp add: deliver_def)

lemma drained: "rx c = [] \<Longrightarrow> c\<lparr>rx := []\<rparr> = c"
  by simp

text \<open>
  Claim C1, amended.  For every packet type and every payload of 1 to 4064 bytes, on an
  open channel with room for the packet, \<^verbatim>\<open>__send_packet\<close> hands the transport the
  bytes header (magic numbers, type, length), payload, footer (CRC-16/CCITT of header
  plus payload); the provider's streaming decoder, idle and fed exactly these bytes,
  calls the packet receipt function once, with that type and with a buffer that starts
  with that payload.  If one bit is inverted in the header outside its length field, in
  the payload, or in the CRC field of the footer, the recomputed CRC differs from the
  footer's, nothing is dispatched, the in-progress length is reset and the fatal-error
  handler is triggered.
\<close>

theorem packet_round_trip_and_bit_flips:
  assumes pos: "0 < length data" and le: "length data \<le> PV_DRIVER_MAX_PAYLOAD_SIZE"
    and s_open: "is_open s" and s_rc: "space_rc s = 0"
    and s_space: "sizeof_dh_header + length data + sizeof_dh_footer \<le> space s"
    and s_heap: "sizeof_dh_header + length data + sizeof_dh_footer \<le> heap_avail es"
    and ch: "control_channel p = Some c" and rx: "rx c = []" and rc: "data_rc c = 0"
    and idle: "length_h (current_packet_header p) = 0"
    and heap: "length data + sizeof_dh_footer \<le> heap_avail e"
  shows
    "(let pkt = transmit_buffer ty data;
          hdr0 = \<lparr> magic1 = PV_DRIVER_MAGIC1, magic2 = PV_DRIVER_MAGIC2, type_h = ty,
                   length_h = 0, dh_reserved_word = 0 \<rparr>;
          p' = p\<lparr>current_packet_header := hdr0\<rparr>
      in send_packet (Some s) ty data es
           = (send_rc s, Some (s\<lparr>send_calls := send_calls s @ [pkt],
                                  notifies := Suc (Suc (notifies s))\<rparr>), es)
         \<and> take (length data) (drop sizeof_dh_header pkt) = data
         \<and> provider_handle_control_channel_event (p\<lparr>control_channel := Some (deliver pkt c)\<rparr>) e
             = (p', provider_handle_control_packet_receipt p' hdr0 (drop sizeof_dh_header pkt) e)
         \<and> (\<forall>j i. i < 8 \<and> (j < 8 \<or> 12 \<le> j) \<and> j < sizeof_dh_header + length data + 2 \<longrightarrow>
               (\<exists>p1. provider_handle_control_channel_event
                        (p\<lparr>control_channel := Some (deliver (flip_packet_bit j i pkt) c)\<rparr>) e
                      = (p1, trigger_fatal_error_on_provider p e)
                    \<and> length_h (current_packet_header p1) = 0
                    \<and> control_channel p1 = Some c)))"
proof -
  let ?hdr = "\<lparr> magic1 = PV_DRIVER_MAGIC1, magic2 = PV_DRIVER_MAGIC2, type_h = ty,
                 length_h = of_nat (length data), dh_reserved_word = 0 \<rparr>"
  let ?hb = "header_bytes ?hdr"
  let ?crc = "pv_helper_blob_checksum (?hb @ data)"
  let ?ft = "footer_bytes ?crc"
  let ?pkt = "transmit_buffer ty data"
  let ?hdr0 = "\<lparr> magic1 = PV_DRIVER_MAGIC1, magic2 = PV_DRIVER_MAGIC2, type_h = ty,
                 length_h = 0, dh_reserved_word = 0 \<rparr>"
  have pkt: "?pkt = ?hb @ data @ ?ft" by (rule transmit_buffer_split)
  have un: "unat (of_nat (length data) :: u32) = length data"
    using le by (rule unat_payload_length)
  have heap8: "length data + 8 \<le> heap_avail e"
    using heap by (simp add: sizeof_dh_footer_def)
  have sent: "send_packet (Some s) ty data es
           = (send_rc s, Some (s\<lparr>send_calls := send_calls s @ [?pkt],
                                  notifies := Suc (Suc (notifies s))\<rparr>), es)"
    using s_open s_rc s_space s_heap
    by (simp add: send_packet_def libivc_isOpen_def pv_helper_malloc_def pv_helper_free_def
      libivc_getAvailableSpace_def libivc_send_def libivc_notify_remote_def Let_def)
  have payload: "take (length data) (drop sizeof_dh_header ?pkt) = data"
    by (simp add: pkt sizeof_dh_header_def)
  have decode: "provider_handle_control_channel_event (p\<lparr>control_channel := Some (deliver (hb @ body @ ft) c)\<rparr>) e =
     (if pv_helper_blob_checksum (hb @ body) = u16_of_le (take 2 ft)
      then (p\<lparr>current_packet_header := (header_of_bytes hb)\<lparr>length_h := 0\<rparr>\<rparr>,
            provider_handle_control_packet_receipt
              (p\<lparr>current_packet_header := (header_of_bytes hb)\<lparr>length_h := 0\<rparr>\<rparr>)
              ((header_of_bytes hb)\<lparr>length_h := 0\<rparr>) (body @ ft) e)
      else (p\<lparr>current_packet_header := (header_of_bytes hb)\<lparr>length_h := 0\<rparr>\<rparr>,
            trigger_fatal_error_on_provider p e))"
    if "length hb = 16" "length ft = 8" "length body = length data"
       "length_h (header_of_bytes hb) = of_nat (length data)" for hb body ft
  proof -
    let ?q = "p\<lparr>control_channel := Some (deliver (hb @ body @ ft) c)\<rparr>"
    have q2: "?q\<lparr>control_channel := Some ((deliver (hb @ body @ ft) c)\<lparr>rx := []\<rparr>),
                 current_packet_header := (header_of_bytes hb)\<lparr>length_h := 0\<rparr>\<rparr>
              = p\<lparr>current_packet_header := (header_of_bytes hb)\<lparr>length_h := 0\<rparr>\<rparr>"
      using ch rx by (simp add: deliver_def)
    have fq: "trigger_fatal_error_on_provider ?q e = trigger_fatal_error_on_provider p e"
      by (simp add: trigger_fatal_error_on_provider_def)
    show ?thesis
      using provider_decode_one [of ?q "deliver (hb @ body @ ft) c" hb body ft e]
        that rx rc idle pos un heap8 q2 fq
      by (simp add: deliver_def checksum_two_sections)
  qed
  have good: "provider_handle_control_channel_event (p\<lparr>control_channel := Some (deliver ?pkt c)\<rparr>) e
             = (p\<lparr>current_packet_header := ?hdr0\<rparr>,
                provider_handle_control_packet_receipt (p\<lparr>current_packet_header := ?hdr0\<rparr>)
                  ?hdr0 (drop sizeof_dh_header ?pkt) e)"
    using decode [of ?hb ?ft data]
    by (simp add: pkt header_of_header_bytes [of _ "[]", simplified] footer_crc_bytes
        sizeof_dh_header_def)
  have bad: "\<exists>p1. provider_handle_control_channel_event
                        (p\<lparr>control_channel := Some (deliver (flip_packet_bit j i ?pkt) c)\<rparr>) e
                      = (p1, trigger_fatal_error_on_provider p e)
                    \<and> length_h (current_packet_header p1) = 0
                    \<and> control_channel p1 = Some c"
    if i: "i < 8" and j1: "j < 8 \<or> 12 \<le> j" and j2: "j < sizeof_dh_header + length data + 2"
    for j i
  proof -
    let ?v = "flip_bit i (?pkt ! j)"
    have v: "?v \<noteq> ?pkt ! j" using i by (rule flip_bit_byte_neq)
    have hlen: "length_h (header_of_bytes ?hb) = of_nat (length data)"
      by (simp add: header_of_header_bytes [of _ "[]", simplified])
    consider (hdr) "j < 16" | (body) "16 \<le> j" "j < 16 + length data"
      | (crc) "16 + length data \<le> j" "j < 16 + length data + 2"
      using j2 by (auto simp: sizeof_dh_header_def) linarith
    then show ?thesis
    proof cases
      case hdr
      then have fl: "flip_packet_bit j i ?pkt = ?hb[j := ?v] @ data @ ?ft"
        by (simp add: flip_packet_bit_def pkt list_update_append1)
      have nth: "?pkt ! j = (?hb @ data) ! j" using hdr by (simp add: pkt nth_append)
      have "pv_helper_blob_checksum ((?hb @ data)[j := ?v]) \<noteq> ?crc"
        using hdr v nth by (intro blob_checksum_update) simp_all
      then have ne: "pv_helper_blob_checksum (?hb[j := ?v] @ data) \<noteq> ?crc"
        using hdr by (simp add: list_update_append1)
      show ?thesis
        using decode [of "?hb[j := ?v]" ?ft data] ne j1 hlen ch
        by (simp add: fl header_length_update footer_crc_bytes)
    next
      case body
      then have jb: "j - 16 < length data" by linarith
      have fl: "flip_packet_bit j i ?pkt = ?hb @ data[j - 16 := ?v] @ ?ft"
        using body jb by (simp add: flip_packet_bit_def pkt list_update_append)
      have nth: "?pkt ! j = (?hb @ data) ! j" using body jb by (simp add: pkt nth_append)
      have "pv_helper_blob_checksum ((?hb @ data)[j := ?v]) \<noteq> ?crc"
        using body v nth by (intro blob_checksum_update) simp_all
      then have ne: "pv_helper_blob_checksum (?hb @ data[j - 16 := ?v]) \<noteq> ?crc"
        using body jb by (simp add: list_update_append)
      show ?thesis
        using decode [of ?hb ?ft "data[j - 16 := ?v]"] ne hlen ch
        by (simp add: fl footer_crc_bytes)
    next
      case crc
      let ?k = "j - 16 - length data"
      have k: "?k < 2" using crc by linarith
      have nb: "\<not> j - 16 < length data" using crc by linarith
      have fl: "flip_packet_bit j i ?pkt = ?hb @ data @ ?ft[?k := ?v]"
        using crc nb by (simp add: flip_packet_bit_def pkt list_update_append)
      have nth: "?pkt ! j = le16 ?crc ! ?k"
        using crc k nb by (simp add: pkt nth_append footer_bytes_def)
      have tk: "take 2 (?ft[?k := ?v]) = (le16 ?crc)[?k := ?v]"
        using k by (simp add: footer_bytes_def list_update_append1)
      have "(le16 ?crc)[?k := ?v] \<noteq> le16 ?crc"
        using k v nth by (metis length_le16 nth_list_update_eq)
      then have "u16_of_le ((le16 ?crc)[?k := ?v]) \<noteq> u16_of_le (le16 ?crc)"
        using u16_of_le_inj [of "(le16 ?crc)[?k := ?v]" "le16 ?crc"] by auto
      then have ne: "?crc \<noteq> u16_of_le (take 2 (?ft[?k := ?v]))"
        by (metis tk u16_le16)
      show ?thesis
        using decode [of ?hb "?ft[?k := ?v]" data] ne hlen ch
        by (simp add: fl)
    qed
  qed
  show ?thesis
    unfolding Let_def using sent payload good bad by blast
qed

theorem packet_round_trip_and_bit_flips_witness:
  "send_packet (Some sample_client) 2 [0x2a] sample_env
     = (0, Some (sample_client\<lparr>send_calls := [transmit_buffer 2 [0x2a]], notifies := 2\<rparr>),
        sample_env)
   \<and> provider_handle_control_channel_event
        (sample_provider\<lparr>control_channel :=
            Some (deliver (transmit_buffer 2 [0x2a]) sample_client)\<rparr>) sample_env
     = (sample_provider\<lparr>current_packet_header :=
           \<lparr> magic1 = PV_DRIVER_MAGIC1, magic2 = PV_DRIVER_MAGIC2, type_h = 2,
             length_h = 0, dh_reserved_word = 0 \<rparr>\<rparr>,
        sample_env\<lparr>trace :=
           [PacketReceipt \<lparr> magic1 = PV_DRIVER_MAGIC1, magic2 = PV_DRIVER_MAGIC2, type_h = 2,
                            length_h = 0, dh_reserved_word = 0 \<rparr>
              [42, 169, 27, 0, 0, 0, 0, 0, 0]]\<rparr>)
   \<and> trace (snd (provider_handle_control_channel_event
        (sample_provider\<lparr>control_channel :=
            Some (deliver (flip_packet_bit 16 3 (transmit_buffer 2 [0x2a])) sample_client)\<rparr>)
        sample_env))
     = [ProviderFatalError 9]"
proof -
  have pre: "0 < length [0x2a :: byte]" "length [0x2a :: byte] \<le> PV_DRIVER_MAX_PAYLOAD_SIZE"
    "is_open sample_client" "space_rc sample_client = 0"
    "sizeof_dh_header + length [0x2a :: byte] + sizeof_dh_footer \<le> space sample_client"
    "sizeof_dh_header + length [0x2a :: byte] + sizeof_dh_footer \<le> heap_avail sample_env"
    "control_channel sample_provider = Some sample_client" "rx sample_client = []"
    "data_rc sample_client = 0" "length_h (current_packet_header sample_provider) = 0"
    "length [0x2a :: byte] + sizeof_dh_footer \<le> heap_avail sample_env"
    by (simp_all add: sample_client_def sample_env_def sample_provider_def sample_header_def
        PV_DRIVER_MAX_PAYLOAD_SIZE_def PV_DRIVER_MAX_PACKET_SIZE_def sizeof_dh_header_def
        sizeof_dh_footer_def)
  note t = packet_round_trip_and_bit_flips [OF pre, of 2, unfolded Let_def]
  have buf: "drop sizeof_dh_header (transmit_buffer 2 [0x2a]) = [42, 169, 27, 0, 0, 0, 0, 0, 0]"
    by code_simp
  from t have a: "send_packet (Some sample_client) 2 [0x2a] sample_env
     = (0, Some (sample_client\<lparr>send_calls := [transmit_buffer 2 [0x2a]], notifies := 2\<rparr>),
        sample_env)"
    by (simp add: sample_client_def)
  from t have b: "provider_handle_control_channel_event
        (sample_provider\<lparr>control_channel :=
            Some (deliver (transmit_buffer 2 [0x2a]) sample_client)\<rparr>) sample_env
     = (sample_provider\<lparr>current_packet_header :=
           \<lparr> magic1 = PV_DRIVER_MAGIC1, magic2 = PV_DRIVER_MAGIC2, type_h = 2,
             length_h = 0, dh_reserved_word = 0 \<rparr>\<rparr>,
        sample_env\<lparr>trace :=
           [PacketReceipt \<lparr> magic1 = PV_DRIVER_MAGIC1, magic2 = PV_DRIVER_MAGIC2, type_h = 2,
                            length_h = 0, dh_reserved_word = 0 \<rparr>
              [42, 169, 27, 0, 0, 0, 0, 0, 0]]\<rparr>)"
    by (simp add: buf provider_handle_control_packet_receipt_def
        provider_handle_host_display_changed_event_def sample_provider_def call_def
        sample_env_def PACKET_TYPE_CONTROL_HOST_DISPLAY_LIST_def)
  from t have "\<exists>p1. provider_handle_control_channel_event
        (sample_provider\<lparr>control_channel :=
            Some (deliver (flip_packet_bit 16 3 (transmit_buffer 2 [0x2a])) sample_client)\<rparr>)
        sample_env = (p1, trigger_fatal_error_on_provider sample_provider sample_env)
      \<and> length_h (current_packet_header p1) = 0 \<and> control_channel p1 = Some sample_client"
    by (simp add: sizeof_dh_header_def)
  then obtain p1 where e1: "provider_handle_control_channel_event
        (sample_provider\<lparr>control_channel :=
            Some (deliver (flip_packet_bit 16 3 (transmit_buffer 2 [0x2a])) sample_client)\<rparr>)
        sample_env = (p1, trigger_fatal_error_on_provider sample_provider sample_env)"
    by blast
  have tf: "trace (trigger_fatal_error_on_provider sample_provider sample_env)
            = [ProviderFatalError 9]"
    by (simp add: trigger_fatal_error_on_provider_def sample_provider_def call_def sample_env_def)
  have c: "trace (snd (provider_handle_control_channel_event
        (sample_provider\<lparr>control_channel :=
            Some (deliver (flip_packet_bit 16 3 (transmit_buffer 2 [0x2a])) sample_client)\<rparr>)
        sample_env)) = [ProviderFatalError 9]"
    by (simp only: e1 snd_conv tf)
  from a b c show ?thesis by simp
qed

text \<open>
  The claim as first stated fails in three places.  A packet with an empty payload is
  never dispatched: its header is read, its length 0 reads as "no packet in progress",
  and its footer stays in the stream.  A bit inverted in the reserved bytes of the
  footer is not covered by the CRC: the packet is dispatched.  A bit inverted in the
  length field changes what the decoder reads: here the length becomes 0, nothing is
  checked and no error is raised.
\<close>

theorem packet_round_trip_counterexample:
  "provider_handle_control_channel_event
      (sample_provider\<lparr>control_channel := Some (deliver (transmit_buffer 2 []) sample_client)\<rparr>)
      sample_env
    = (sample_provider\<lparr>control_channel := Some (sample_client\<lparr>rx := [185, 62, 0, 0, 0, 0, 0, 0]\<rparr>),
         current_packet_header :=
           \<lparr> magic1 = PV_DRIVER_MAGIC1, magic2 = PV_DRIVER_MAGIC2, type_h = 2,
             length_h = 0, dh_reserved_word = 0 \<rparr>\<rparr>,
       sample_env)
   \<and> trace (snd (provider_handle_control_channel_event
        (sample_provider\<lparr>control_channel :=
            Some (deliver (flip_packet_bit 19 0 (transmit_buffer 2 [0x2a])) sample_client)\<rparr>)
        sample_env))
     = [PacketReceipt \<lparr> magic1 = PV_DRIVER_MAGIC1, magic2 = PV_DRIVER_MAGIC2, type_h = 2,
                        length_h = 0, dh_reserved_word = 0 \<rparr>
          [42, 169, 27, 1, 0, 0, 0, 0, 0]]
   \<and> provider_handle_control_channel_event
        (sample_provider\<lparr>control_channel :=
            Some (deliver (flip_packet_bit 8 0 (transmit_buffer 2 [0x2a])) sample_client)\<rparr>)
        sample_env
     = (sample_provider\<lparr>control_channel :=
            Some (sample_client\<lparr>rx := [42, 169, 27, 0, 0, 0, 0, 0, 0]\<rparr>),
         current_packet_header :=
           \<lparr> magic1 = PV_DRIVER_MAGIC1, magic2 = PV_DRIVER_MAGIC2, type_h = 2,
             length_h = 0, dh_reserved_word = 0 \<rparr>\<rparr>,
       sample_env)"
  by code_simp

subsection \<open>What the handler sees of the header\<close>

lemma provider_receipt_trace:
  "\<exists>rest. trace (provider_handle_control_packet_receipt p h b e) = trace e @ PacketReceipt h b # rest"
  by (simp add: provider_handle_control_packet_receipt_def
      provider_handle_host_display_changed_event_def provider_handle_add_display_request_def
      provider_handle_remove_display_request_def call_def Let_def split: option.splits)

lemma consumer_receipt_trace:
  "\<exists>rest. trace (consumer_handle_control_packet_receipt p h b e) = trace e @ PacketReceipt h b # rest"
  by (simp add: consumer_handle_control_packet_receipt_def
      handle_guest_driver_capabilities_event_def handle_advertised_display_list_request_def
      handle_display_no_longer_available_request_def handle_text_mode_request_def
      call_def Let_def split: option.splits)

text \<open>
  Claim C9.  When a control packet passes the CRC check (the only way
  \<^verbatim>\<open>__try_to_receive_control_packet\<close> returns true), the receiver has set
  \<^verbatim>\<open>current_packet_header.length\<close> to 0 before it calls the receipt function, and
  the header it passes is that same \<^verbatim>\<open>current_packet_header\<close>: the handler sees
  length 0 and the type of the received packet.  This holds for the provider and for
  the consumer.
\<close>

theorem dispatch_sees_reset_header:
  "(provider_try_to_receive_control_packet provider e = (True, provider', e') \<longrightarrow>
      (\<exists>buffer rest.
          pv_helper_packet_checksum (current_packet_header provider) buffer
              (unat (length_h (current_packet_header provider)))
            = footer_crc buffer (unat (length_h (current_packet_header provider)))
          \<and> trace e' = trace e @ PacketReceipt (current_packet_header provider') buffer # rest)
      \<and> length_h (current_packet_header provider') = 0
      \<and> type_h (current_packet_header provider') = type_h (current_packet_header provider))
   \<and> (consumer_try_to_receive_control_packet consumer e = (True, consumer', e'') \<longrightarrow>
      (\<exists>buffer rest.
          pv_helper_packet_checksum (current_packet_header_c consumer) buffer
              (unat (length_h (current_packet_header_c consumer)))
            = footer_crc buffer (unat (length_h (current_packet_header_c consumer)))
          \<and> trace e'' = trace e @ PacketReceipt (current_packet_header_c consumer') buffer # rest)
      \<and> length_h (current_packet_header_c consumer') = 0
      \<and> type_h (current_packet_header_c consumer') = type_h (current_packet_header_c consumer))"
proof (intro conjI impI)
  assume a: "provider_try_to_receive_control_packet provider e = (True, provider', e')"
  let ?len = "unat (length_h (current_packet_header provider))"
  from a obtain e1 buffer ch where
      m: "pv_helper_malloc (?len + sizeof_dh_footer) e = Some e1"
    and ok: "pv_helper_packet_checksum (current_packet_header provider) buffer ?len
             = footer_crc buffer ?len"
    and p': "provider' = provider\<lparr>control_channel := ch,
               current_packet_header := (current_packet_header provider)\<lparr>length_h := 0\<rparr>\<rparr>"
    and e': "e' = pv_helper_free (?len + sizeof_dh_footer)
               (provider_handle_control_packet_receipt provider'
                  (current_packet_header provider') buffer e1)"
    by (auto simp: provider_try_to_receive_control_packet_def Let_def
        split: option.splits if_splits prod.splits)
  from m have t1: "trace e1 = trace e"
    by (auto simp: pv_helper_malloc_def split: if_splits)
  obtain rest where "trace (provider_handle_control_packet_receipt provider'
                  (current_packet_header provider') buffer e1)
        = trace e1 @ PacketReceipt (current_packet_header provider') buffer # rest"
    using provider_receipt_trace by blast
  with e' t1 have "trace e' = trace e @ PacketReceipt (current_packet_header provider') buffer # rest"
    by (simp add: pv_helper_free_def)
  with ok show "\<exists>buffer rest.
          pv_helper_packet_checksum (current_packet_header provider) buffer ?len
            = footer_crc buffer ?len
          \<and> trace e' = trace e @ PacketReceipt (current_packet_header provider') buffer # rest"
    by blast
  from p' show "length_h (current_packet_header provider') = 0" by simp
  from p' show "type_h (current_packet_header provider') = type_h (current_packet_header provider)"
    by simp
next
  assume a: "consumer_try_to_receive_control_packet consumer e = (True, consumer', e'')"
  let ?len = "unat (length_h (current_packet_header_c consumer))"
  from a obtain e1 buffer ch where
      m: "pv_helper_malloc (?len + sizeof_dh_footer) e = Some e1"
    and ok: "pv_helper_packet_checksum (current_packet_header_c consumer) buffer ?len
             = footer_crc buffer ?len"
    and p': "consumer' = consumer\<lparr>control_channel_c := ch,
               current_packet_header_c := (current_packet_header_c consumer)\<lparr>length_h := 0\<rparr>\<rparr>"
    and e': "e'' = pv_helper_free (?len + sizeof_dh_footer)
               (consumer_handle_control_packet_receipt consumer'
                  (current_packet_header_c consumer') buffer e1)"
    by (auto simp: consumer_try_to_receive_control_packet_def Let_def
        split: option.splits if_splits prod.splits)
  from m have t1: "trace e1 = trace e"
    by (auto simp: pv_helper_malloc_def split: if_splits)
  obtain rest where "trace (consumer_handle_control_packet_receipt consumer'
                  (current_packet_header_c consumer') buffer e1)
        = trace e1 @ PacketReceipt (current_packet_header_c consumer') buffer # rest"
    using consumer_receipt_trace by blast
  with e' t1 have "trace e'' = trace e @ PacketReceipt (current_packet_header_c consumer') buffer # rest"
    by (simp add: pv_helper_free_def)
  with ok show "\<exists>buffer rest.
          pv_helper_packet_checksum (current_packet_header_c consumer) buffer ?len
            = footer_crc buffer ?len
          \<and> trace e'' = trace e @ PacketReceipt (current_packet_header_c consumer') buffer # rest"
    by blast
  from p' show "length_h (current_packet_header_c consumer') = 0" by simp
  from p' show "type_h (current_packet_header_c consumer') = type_h (current_packet_header_c consumer)"
    by simp
qed

theorem dispatch_sees_reset_header_witness:
  "provider_try_to_receive_control_packet
      (sample_provider\<lparr>control_channel := Some (sample_client\<lparr>rx := [42, 169, 27, 0, 0, 0, 0, 0, 0]\<rparr>),
         current_packet_header :=
           \<lparr> magic1 = PV_DRIVER_MAGIC1, magic2 = PV_DRIVER_MAGIC2, type_h = 2,
             length_h = 1, dh_reserved_word = 0 \<rparr>\<rparr>) sample_env
    = (True,
       sample_provider\<lparr>current_packet_header :=
           \<lparr> magic1 = PV_DRIVER_MAGIC1, magic2 = PV_DRIVER_MAGIC2, type_h = 2,
             length_h = 0, dh_reserved_word = 0 \<rparr>\<rparr>,
       sample_env\<lparr>trace :=
           [PacketReceipt \<lparr> magic1 = PV_DRIVER_MAGIC1, magic2 = PV_DRIVER_MAGIC2, type_h = 2,
                            length_h = 0, dh_reserved_word = 0 \<rparr>
              [42, 169, 27, 0, 0, 0, 0, 0, 0]]\<rparr>)
   \<and> consumer_try_to_receive_control_packet
      (sample_consumer\<lparr>control_channel_c := Some (sample_client\<lparr>rx := [42, 169, 27, 0, 0, 0, 0, 0, 0]\<rparr>),
         current_packet_header_c :=
           \<lparr> magic1 = PV_DRIVER_MAGIC1, magic2 = PV_DRIVER_MAGIC2, type_h = 2,
             length_h = 1, dh_reserved_word = 0 \<rparr>\<rparr>) sample_env
    = (True,
       sample_consumer\<lparr>current_packet_header_c :=
           \<lparr> magic1 = PV_DRIVER_MAGIC1, magic2 = PV_DRIVER_MAGIC2, type_h = 2,
             length_h = 0, dh_reserved_word = 0 \<rparr>\<rparr>,
       sample_env\<lparr>trace :=
           [PacketReceipt \<lparr> magic1 = PV_DRIVER_MAGIC1, magic2 = PV_DRIVER_MAGIC2, type_h = 2,
                            length_h = 0, dh_reserved_word = 0 \<rparr>
              [42, 169, 27, 0, 0, 0, 0, 0, 0]]\<rparr>)
   \<and> length_h (current_packet_header (sample_provider\<lparr>current_packet_header :=
           \<lparr> magic1 = PV_DRIVER_MAGIC1, magic2 = PV_DRIVER_MAGIC2, type_h = 2,
             length_h = 0, dh_reserved_word = 0 \<rparr>\<rparr>)) = 0
   \<and> type_h (current_packet_header_c (sample_consumer\<lparr>current_packet_header_c :=
           \<lparr> magic1 = PV_DRIVER_MAGIC1, magic2 = PV_DRIVER_MAGIC2, type_h = 2,
             length_h = 0, dh_reserved_word = 0 \<rparr>\<rparr>)) = 2"
proof -
  have p: "provider_try_to_receive_control_packet
      (sample_provider\<lparr>control_channel := Some (sample_client\<lparr>rx := [42, 169, 27, 0, 0, 0, 0, 0, 0]\<rparr>),
         current_packet_header :=
           \<lparr> magic1 = PV_DRIVER_MAGIC1, magic2 = PV_DRIVER_MAGIC2, type_h = 2,
             length_h = 1, dh_reserved_word = 0 \<rparr>\<rparr>) sample_env
    = (True,
       sample_provider\<lparr>current_packet_header :=
           \<lparr> magic1 = PV_DRIVER_MAGIC1, magic2 = PV_DRIVER_MAGIC2, type_h = 2,
             length_h = 0, dh_reserved_word = 0 \<rparr>\<rparr>,
       sample_env\<lparr>trace :=
           [PacketReceipt \<lparr> magic1 = PV_DRIVER_MAGIC1, magic2 = PV_DRIVER_MAGIC2, type_h = 2,
                            length_h = 0, dh_reserved_word = 0 \<rparr>
              [42, 169, 27, 0, 0, 0, 0, 0, 0]]\<rparr>)"
    by code_simp
  have c: "consumer_try_to_receive_control_packet
      (sample_consumer\<lparr>control_channel_c := Some (sample_client\<lparr>rx := [42, 169, 27, 0, 0, 0, 0, 0, 0]\<rparr>),
         current_packet_header_c :=
           \<lparr> magic1 = PV_DRIVER_MAGIC1, magic2 = PV_DRIVER_MAGIC2, type_h = 2,
             length_h = 1, dh_reserved_word = 0 \<rparr>\<rparr>) sample_env
    = (True,
       sample_consumer\<lparr>current_packet_header_c :=
           \<lparr> magic1 = PV_DRIVER_MAGIC1, magic2 = PV_DRIVER_MAGIC2, type_h = 2,
             length_h = 0, dh_reserved_word = 0 \<rparr>\<rparr>,
       sample_env\<lparr>trace :=
           [PacketReceipt \<lparr> magic1 = PV_DRIVER_MAGIC1, magic2 = PV_DRIVER_MAGIC2, type_h = 2,
                            length_h = 0, dh_reserved_word = 0 \<rparr>
              [42, 169, 27, 0, 0, 0, 0, 0, 0]]\<rparr>)"
    by code_simp
  note t = dispatch_sees_reset_header [THEN conjunct1, THEN mp, OF p]
    dispatch_sees_reset_header [THEN conjunct2, THEN mp, OF c]
  from t(1) have "length_h (current_packet_header (sample_provider\<lparr>current_packet_header :=
           \<lparr> magic1 = PV_DRIVER_MAGIC1, magic2 = PV_DRIVER_MAGIC2, type_h = 2,
             length_h = 0, dh_reserved_word = 0 \<rparr>\<rparr>)) = 0"
    by blast
  moreover from t(2) have "type_h (current_packet_header_c (sample_consumer\<lparr>current_packet_header_c :=
           \<lparr> magic1 = PV_DRIVER_MAGIC1, magic2 = PV_DRIVER_MAGIC2, type_h = 2,
             length_h = 0, dh_reserved_word = 0 \<rparr>\<rparr>)) = 2"
    by simp
  ultimately show ?thesis using p c by simp
qed


subsection \<open>Advertising capabilities\<close>

lemma send_packet_ok:
  assumes "is_open c" "space_rc c = 0"
    "sizeof_dh_header + length data + sizeof_dh_footer \<le> space c"
    "sizeof_dh_header + length data + sizeof_dh_footer \<le> heap_avail e"
  shows "send_packet (Some c) ty data e
         = (send_rc c, Some (c\<lparr>send_calls := send_calls c @ [transmit_buffer ty data],
                               notifies := Suc (Suc (notifies c))\<rparr>), e)"
  using assms
  by (simp add: send_packet_def libivc_isOpen_def pv_helper_malloc_def pv_helper_free_def
      libivc_getAvailableSpace_def libivc_send_def libivc_notify_remote_def Let_def)

lemma read_u32_caps:
  "read_u32 (driver_capabilities_bytes c @ rest) 0 = Some (max_displays c)"
  "read_u32 (driver_capabilities_bytes c @ rest) 4 = Some (version c)"
  "read_u32 (driver_capabilities_bytes c @ rest) 8 = Some (flags c)"
  by (simp_all add: read_u32_def driver_capabilities_bytes_def u32_le32)

text \<open>
  Claim C2, amended.  For every provider with an open control channel that has room for
  the packet, and every \<open>max_displays\<close>, \<^verbatim>\<open>advertise_capabilities\<close> sends one
  driver-capabilities packet whose \<^verbatim>\<open>max_displays\<close> field is the argument, whose
  version field is \<open>0x00000001\<close> and whose flags field is 0.  The capability bitmap of
  the provider is OR'd as handlers are registered (\<open>DH_CAP_RESIZE\<close> with the
  host-display-change handler, \<open>DH_CAP_HOTPLUG\<close> with the add-display or the
  remove-display handler), but it is not put into the packet.
\<close>

theorem advertise_capabilities_sends_zero_flags:
  assumes "control_channel provider = Some c" "is_open c" "space_rc c = 0"
    "40 \<le> space c" "40 \<le> heap_avail e"
  shows
    "provider_advertise_capabilities provider max_disp e
       = (send_rc c,
          provider\<lparr>control_channel :=
             Some (c\<lparr>send_calls := send_calls c
                       @ [transmit_buffer PACKET_TYPE_CONTROL_DRIVER_CAPABILITIES
                            (driver_capabilities_bytes
                               \<lparr> max_displays = max_disp, version = 1, flags = 0,
                                 dh_reserved_word_caps = 0 \<rparr>)],
                     notifies := Suc (Suc (notifies c))\<rparr>)\<rparr>,
          e)
     \<and> read_u32 (drop sizeof_dh_header
           (transmit_buffer PACKET_TYPE_CONTROL_DRIVER_CAPABILITIES
              (driver_capabilities_bytes
                 \<lparr> max_displays = max_disp, version = 1, flags = 0,
                   dh_reserved_word_caps = 0 \<rparr>))) 4 = Some 1
     \<and> read_u32 (drop sizeof_dh_header
           (transmit_buffer PACKET_TYPE_CONTROL_DRIVER_CAPABILITIES
              (driver_capabilities_bytes
                 \<lparr> max_displays = max_disp, version = 1, flags = 0,
                   dh_reserved_word_caps = 0 \<rparr>))) 8 = Some 0
     \<and> capabilities (provider_register_host_display_change_handler provider h)
         = capabilities provider OR DH_CAP_RESIZE
     \<and> capabilities (provider_register_add_display_request_handler provider h)
         = capabilities provider OR DH_CAP_HOTPLUG
     \<and> capabilities (provider_register_remove_display_request_handler provider h)
         = capabilities provider OR DH_CAP_HOTPLUG"
proof -
  have len: "length (driver_capabilities_bytes cp) = 16" for cp
    by (simp add: driver_capabilities_bytes_def le32_def)
  have "provider_advertise_capabilities provider max_disp e
       = (send_rc c,
          provider\<lparr>control_channel :=
             Some (c\<lparr>send_calls := send_calls c
                       @ [transmit_buffer PACKET_TYPE_CONTROL_DRIVER_CAPABILITIES
                            (driver_capabilities_bytes
                               \<lparr> max_displays = max_disp, version = 1, flags = 0,
                                 dh_reserved_word_caps = 0 \<rparr>)],
                     notifies := Suc (Suc (notifies c))\<rparr>)\<rparr>,
          e)"
    using assms
    by (simp add: provider_advertise_capabilities_def send_packet_ok len sizeof_dh_header_def
        sizeof_dh_footer_def PV_DRIVER_INTERFACE_VERSION_def)
  moreover have "drop sizeof_dh_header (transmit_buffer ty (driver_capabilities_bytes cp))
        = driver_capabilities_bytes cp @ footer_bytes (pv_helper_blob_checksum
            (take 16 (transmit_buffer ty (driver_capabilities_bytes cp)) @ driver_capabilities_bytes cp))"
    for ty cp
    by (simp add: transmit_buffer_def Let_def sizeof_dh_header_def header_bytes_def le16_def le32_def)
  ultimately show ?thesis
    by (simp add: read_u32_caps provider_register_host_display_change_handler_def
        provider_register_add_display_request_handler_def
        provider_register_remove_display_request_handler_def)
qed

theorem advertise_capabilities_sends_zero_flags_witness:
  "provider_advertise_capabilities
      (provider_register_host_display_change_handler sample_provider (Some 1)) 2 sample_env
     = (0,
        (provider_register_host_display_change_handler sample_provider (Some 1))
          \<lparr>control_channel :=
             Some (sample_client\<lparr>send_calls :=
                       [transmit_buffer PACKET_TYPE_CONTROL_DRIVER_CAPABILITIES
                            (driver_capabilities_bytes
                               \<lparr> max_displays = 2, version = 1, flags = 0,
                                 dh_reserved_word_caps = 0 \<rparr>)],
                     notifies := 2\<rparr>)\<rparr>,
        sample_env)"
  using advertise_capabilities_sends_zero_flags
    [of "provider_register_host_display_change_handler sample_provider (Some 1)"
        sample_client sample_env 2]
  by (simp add: provider_register_host_display_change_handler_def sample_provider_def
      sample_client_def sample_env_def)

text \<open>
  The claim as first stated fails: after the host-display-change handler is registered
  the bitmap is \<open>DH_CAP_RESIZE = 4\<close>, and the flags field of the packet sent is 0.
\<close>

theorem advertise_capabilities_flags_counterexample:
  "capabilities (provider_register_host_display_change_handler sample_provider (Some 1)) = 4
   \<and> read_u32 (drop sizeof_dh_header (last (send_calls (the (control_channel (fst (snd
        (provider_advertise_capabilities
           (provider_register_host_display_change_handler sample_provider (Some 1))
           2 sample_env)))))))) 8 = Some 0"
  by code_simp

subsection \<open>A CRC mismatch on the three receivers\<close>


subsection \<open>Fatal errors of a display\<close>

lemma backend_fault_no_handler:
  "fatal_error_handler_b b = None \<Longrightarrow>
   fold trigger_fatal_error_on_display_backend fs (b, e) = (b, e)"
proof (induction fs)
  case Nil
  then show ?case by simp
next
  case (Cons f fs)
  obtain nested where f: "f = Disconnect nested" by (cases f)
  from Cons show ?case by (simp add: f)
qed

lemma backend_fault_chain:
  "fold trigger_fatal_error_on_display_backend fs (b, e) =
     (case fatal_error_handler_b b of
        None \<Rightarrow> (b, e)
      | Some h \<Rightarrow> if fs = [] then (b, e)
                  else (b\<lparr>fatal_error_handler_b := None\<rparr>, call (BackendFatalError h) e))"
proof (cases fs)
  case Nil
  then show ?thesis by (simp split: option.splits)
next
  case (Cons f rest)
  obtain nested where f: "f = Disconnect nested" by (cases f)
  show ?thesis
    by (simp add: Cons f backend_fault_no_handler split: option.splits)
qed

lemma display_fault_in_progress:
  "fold (handle_disconnect_for_connection d) fs (True, e) = (True, e)"
proof (induction fs)
  case Nil
  then show ?case by simp
next
  case (Cons f fs)
  obtain nested where f: "f = Disconnect nested" by (cases f)
  from Cons show ?case by (simp add: f)
qed

lemma display_fault_one:
  "handle_disconnect_for_connection d (Disconnect nested) (False, e) =
     (False, trigger_fatal_error_on_display d e)"
  by (simp add: display_fault_in_progress trigger_fatal_error_on_display_def split: option.splits)

lemma display_fault_chain:
  "fold (handle_disconnect_for_connection d) fs (False, e) =
     (False, e\<lparr>trace := trace e @ (case fatal_error_handler_d d of
                                       None \<Rightarrow> []
                                     | Some h \<Rightarrow> replicate (length fs) (DisplayFatalError h))\<rparr>)"
proof (induction fs arbitrary: e)
  case Nil
  then show ?case by (simp split: option.splits)
next
  case (Cons f fs)
  obtain nested where f: "f = Disconnect nested" by (cases f)
  have "fold (handle_disconnect_for_connection d) (f # fs) (False, e)
        = fold (handle_disconnect_for_connection d) fs (False, trigger_fatal_error_on_display d e)"
    by (simp add: f display_fault_one del: handle_disconnect_for_connection.simps)
  then show ?case
    by (simp add: Cons trigger_fatal_error_on_display_def call_def split: option.splits)
qed

text \<open>
  Claim C5, amended.  On the consumer side, for every display backend and every chain of
  faults, nested or successive, the registered fatal-error handler is called at most
  once: the pointer is cleared before the call.  On the provider side the guard is a
  static flag that is set only while a handler runs: a disconnect raised while the
  handler runs calls nothing, and every disconnect that arrives when no handler is
  running calls the registered handler, so a chain of \<open>n\<close> successive disconnects
  calls it \<open>n\<close> times.
\<close>

theorem fatal_error_latch:
  "(\<exists>b'. fold trigger_fatal_error_on_display_backend fs (b, e)
            = (b', e\<lparr>trace := trace e @ (case fatal_error_handler_b b of
                                             None \<Rightarrow> []
                                           | Some h \<Rightarrow> if fs = [] then []
                                                       else [BackendFatalError h])\<rparr>))
   \<and> fold (handle_disconnect_for_connection d) fs (False, e)
       = (False, e\<lparr>trace := trace e @ (case fatal_error_handler_d d of
                                         None \<Rightarrow> []
                                       | Some h \<Rightarrow> replicate (length fs) (DisplayFatalError h))\<rparr>)
   \<and> handle_disconnect_for_connection d f (True, e) = (True, e)"
proof -
  obtain nested where f: "f = Disconnect nested" by (cases f)
  show ?thesis
    by (simp add: backend_fault_chain display_fault_chain f call_def split: option.splits)
qed

theorem fatal_error_latch_witness:
  "fold trigger_fatal_error_on_display_backend [Disconnect [Disconnect []], Disconnect []]
      (sample_backend, sample_env)
     = (sample_backend\<lparr>fatal_error_handler_b := None\<rparr>,
        sample_env\<lparr>trace := [BackendFatalError 9]\<rparr>)
   \<and> fold (handle_disconnect_for_connection sample_display)
        [Disconnect [Disconnect []], Disconnect []] (False, sample_env)
     = (False, sample_env\<lparr>trace := [DisplayFatalError 9, DisplayFatalError 9]\<rparr>)"
proof -
  have b: "fold trigger_fatal_error_on_display_backend [Disconnect [Disconnect []], Disconnect []]
      (sample_backend, sample_env)
     = (sample_backend\<lparr>fatal_error_handler_b := None\<rparr>,
        sample_env\<lparr>trace := [BackendFatalError 9]\<rparr>)"
    by code_simp
  show ?thesis
    using b fatal_error_latch [of "[Disconnect [Disconnect []], Disconnect []]"
        sample_backend sample_env sample_display "Disconnect []"]
    by (simp add: sample_display_def sample_env_def)
qed

text \<open>
  The claim as first stated fails on the provider side: two successive disconnects of one
  display (its event channel, then its framebuffer channel) call the handler twice.
\<close>

theorem fatal_error_latch_counterexample:
  "fold (handle_disconnect_for_connection sample_display) [Disconnect [], Disconnect []]
      (False, sample_env)
    = (False, sample_env\<lparr>trace := [DisplayFatalError 9, DisplayFatalError 9]\<rparr>)"
  by code_simp

subsection \<open>Null handlers\<close>

text \<open>
  Claim C6, at a failing input.  A display backend whose dirty-rectangle handler is
  \<^verbatim>\<open>NULL\<close> receives one 16-byte record on its dirty-rectangle connection: the record
  is read and the \<^verbatim>\<open>NULL\<close> pointer is called.  With a handler registered the same
  record reaches it, and a \<^verbatim>\<open>SET_DISPLAY\<close> packet for a backend whose set-display
  handler is \<^verbatim>\<open>NULL\<close> is dropped after the receipt function has looked at it.
\<close>

theorem dirty_rectangle_null_handler_is_called:
  "handle_dirty_rectangle_event
      (sample_backend\<lparr>dirty_rectangles_connection_b :=
         Some (deliver (dirty_rectangle_bytes 1 2 3 4) sample_client)\<rparr>) sample_env
    = (sample_backend, sample_env\<lparr>trace := [NullCall]\<rparr>)
   \<and> dirty_rectangle_handler sample_backend = None
   \<and> handle_dirty_rectangle_event
      (display_register_dirty_rectangle_handler
         (sample_backend\<lparr>dirty_rectangles_connection_b :=
            Some (deliver (dirty_rectangle_bytes 1 2 3 4) sample_client)\<rparr>) (Some 5)) sample_env
    = (display_register_dirty_rectangle_handler sample_backend (Some 5),
       sample_env\<lparr>trace := [DirtyRectangle 5 1 2 3 4]\<rparr>)
   \<and> handle_event_channel_event
      (display_register_set_display_handler
         (sample_backend\<lparr>event_connection_b :=
            Some (deliver (transmit_buffer PACKET_TYPE_EVENT_SET_DISPLAY
                             (le32 1 @ le32 2 @ le32 3)) sample_client)\<rparr>) None) sample_env
    = (display_register_set_display_handler
         (sample_backend\<lparr>current_packet_header_b :=
            \<lparr> magic1 = PV_DRIVER_MAGIC1, magic2 = PV_DRIVER_MAGIC2,
              type_h = PACKET_TYPE_EVENT_SET_DISPLAY, length_h = 0,
              dh_reserved_word = 0 \<rparr>\<rparr>) None,
       sample_env\<lparr>trace :=
         [PacketReceipt \<lparr> magic1 = PV_DRIVER_MAGIC1, magic2 = PV_DRIVER_MAGIC2,
              type_h = PACKET_TYPE_EVENT_SET_DISPLAY, length_h = 0,
              dh_reserved_word = 0 \<rparr>
            (drop 16 (transmit_buffer PACKET_TYPE_EVENT_SET_DISPLAY
                             (le32 1 @ le32 2 @ le32 3)))]\<rparr>)"
  by code_simp

subsection \<open>The cursor image\<close>











end
